theory Spec2Isabelle
  imports Complex_Main
begin

chapter \<open>avalanche: a grammar-based generator\<close>

text \<open>
  A shallow embedding of \<^verbatim>\<open>src/avalanche.py\<close>. Python objects become records and
  datatypes, exceptions become the left summand of a sum type, the module-global random
  source becomes an explicit argument that every drawing operation consumes and returns,
  and the mutable symbol table and generation state are passed explicitly.
  Where Python 2 and Python 3 differ, the model follows Python 3.
\<close>

section \<open>The host language\<close>

subsection \<open>Exceptions\<close>

text \<open>
  The three exception classes of the module (\<^verbatim>\<open>ParseError\<close>, \<^verbatim>\<open>IntegrityError\<close>,
  \<^verbatim>\<open>GenerationError\<close>, each with its message) and the built-in exceptions of the host
  that the code can raise. A host exception that no \<^verbatim>\<open>except\<close> clause of the module
  catches reaches the caller as it is. \<open>Stuck\<close> is no exception of the host: it is the
  value of the branches that the model adds to its loops over a text, which test that
  the text has become shorter before they go on; the code has no such branch, since each
  of its matches takes at least one character.
\<close>

datatype error =
    ParseError string
  | IntegrityError string
  | GenerationError string
  | AssertionError
  | TypeError
  | ValueError
  | KeyError
  | IndexError
  | OverflowError
  | AttributeError
  | RecursionError
  | Stuck

fun is_grammar_exception :: "error \<Rightarrow> bool" where
  "is_grammar_exception (ParseError m) = True"
| "is_grammar_exception (IntegrityError m) = True"
| "is_grammar_exception (GenerationError m) = True"
| "is_grammar_exception e = False"

subsection \<open>Values\<close>

text \<open>
  A generated value is a \<^verbatim>\<open>str\<close> or a \<^verbatim>\<open>bytes\<close> object. A callable receives numbers
  (the numeric literals of the grammar: \<^verbatim>\<open>int\<close> or \<^verbatim>\<open>float\<close>) and generated
  values. A finite float is the rational number it denotes; rounding is not modelled.
  \<open>FloatInf neg\<close> is the infinity of the sign that \<open>neg\<close> gives.
\<close>

datatype val = Text string | Bin string

datatype num = IntNum int | FloatNum rat | FloatInf bool | FloatNaN

datatype arg = Num num | Val val

fun val_len :: "val \<Rightarrow> nat" where
  "val_len (Text s) = length s"
| "val_len (Bin s) = length s"

fun is_text :: "val \<Rightarrow> bool" where
  "is_text (Text s) = True"
| "is_text (Bin s) = False"

text \<open>\<^verbatim>\<open>isinstance(value, type(other))\<close> for two generated values.\<close>

definition same_type :: "val \<Rightarrow> val \<Rightarrow> bool" where
  "same_type v w = (is_text v = is_text w)"

subsection \<open>\<^verbatim>\<open>str\<close> and \<^verbatim>\<open>int\<close>\<close>

fun str_nat :: "nat \<Rightarrow> string" where
  "str_nat n =
     (if n < 10 then [''0123456789'' ! n]
      else str_nat (n div 10) @ [''0123456789'' ! (n mod 10)])"

declare str_nat.simps [simp del]

definition str_int :: "int \<Rightarrow> string" where
  "str_int i = (if i < 0 then CHR ''-'' # str_nat (nat (- i)) else str_nat (nat i))"

text \<open>\<^verbatim>\<open>int(x)\<close> of a float rounds toward zero.\<close>

definition trunc :: "rat \<Rightarrow> int" where
  "trunc q = (if q < 0 then - \<lfloor>- q\<rfloor> else \<lfloor>q\<rfloor>)"

definition is_space :: "char \<Rightarrow> bool" where
  "is_space c = (c \<in> set [CHR '' '', CHR 0x09, CHR 0x0A, CHR 0x0B, CHR 0x0C, CHR 0x0D])"

definition is_digit :: "char \<Rightarrow> bool" where
  "is_digit c = (c \<in> set ''0123456789'')"

definition digit_val :: "char \<Rightarrow> nat" where
  "digit_val c = of_char c - 48"

text \<open>
  \<^verbatim>\<open>int(s)\<close> of a string: surrounding whitespace is dropped, a sign may lead, and the
  rest is decimal digits, where single underscores may stand between digits.
\<close>

fun int_digits :: "nat \<Rightarrow> bool \<Rightarrow> string \<Rightarrow> nat option" where
  "int_digits acc prev_digit [] = (if prev_digit then Some acc else None)"
| "int_digits acc prev_digit (c # cs) =
     (if is_digit c then int_digits (acc * 10 + digit_val c) True cs
      else if c = CHR ''_'' \<and> prev_digit then int_digits acc False cs
      else None)"

definition strip :: "string \<Rightarrow> string" where
  "strip s = rev (dropWhile is_space (rev (dropWhile is_space s)))"

definition int_of_str :: "string \<Rightarrow> error + int" where
  "int_of_str s =
     (case strip s of
        [] \<Rightarrow> Inl ValueError
      | c # cs \<Rightarrow>
          if c = CHR ''-'' then
            (case int_digits 0 False cs of None \<Rightarrow> Inl ValueError | Some n \<Rightarrow> Inr (- int n))
          else if c = CHR ''+'' then
            (case int_digits 0 False cs of None \<Rightarrow> Inl ValueError | Some n \<Rightarrow> Inr (int n))
          else
            (case int_digits 0 False (c # cs) of None \<Rightarrow> Inl ValueError | Some n \<Rightarrow> Inr (int n)))"

fun py_int :: "arg \<Rightarrow> error + int" where
  "py_int (Num (IntNum i)) = Inr i"
| "py_int (Num (FloatNum q)) = Inr (trunc q)"
| "py_int (Num (FloatInf neg)) = Inl OverflowError"
| "py_int (Num FloatNaN) = Inl ValueError"
| "py_int (Val (Text s)) = int_of_str s"
| "py_int (Val (Bin s)) = int_of_str s"

subsection \<open>The random source\<close>

text \<open>
  The module draws from the global generator of \<^verbatim>\<open>random\<close>. Its state is modelled as
  the stream of raw words it will deliver, a function from positions to words (integers,
  of which the operations take the remainder by a positive number); a draw
  takes the word at position 0 and shifts the stream. The four operations the module
  uses reduce a raw word into their range, so every result the library can return is the
  result for some stream, and equal streams give equal results.
\<close>

type_synonym rng = "nat \<Rightarrow> int"

definition rng_next :: "rng \<Rightarrow> int \<times> rng" where
  "rng_next r = (r 0, \<lambda>i. r (Suc i))"

text \<open>\<^verbatim>\<open>random.random()\<close>: a multiple of \<open>2\<^sup>-\<^sup>5\<^sup>3\<close> in \<open>[0, 1)\<close>.\<close>

definition random_random :: "rng \<Rightarrow> rat \<times> rng" where
  "random_random r =
     (case rng_next r of (w, r') \<Rightarrow> (rat_of_int (w mod 2 ^ 53) / 2 ^ 53, r'))"

text \<open>\<^verbatim>\<open>random.uniform(a, b)\<close> is \<^verbatim>\<open>a + (b - a) * random()\<close>.\<close>

definition uniform :: "rat \<Rightarrow> rat \<Rightarrow> rng \<Rightarrow> rat \<times> rng" where
  "uniform a b r = (case random_random r of (f, r') \<Rightarrow> (a + (b - a) * f, r'))"

text \<open>\<^verbatim>\<open>random.randint(a, b)\<close>: an integer of \<open>[a, b]\<close>; an empty range is a ValueError.\<close>

definition randint :: "int \<Rightarrow> int \<Rightarrow> rng \<Rightarrow> error + (int \<times> rng)" where
  "randint a b r =
     (if b < a then Inl ValueError
      else case rng_next r of (w, r') \<Rightarrow> Inr (a + w mod (b - a + 1), r'))"

text \<open>\<^verbatim>\<open>random.choice(seq)\<close>: an element of the sequence; IndexError when it is empty.\<close>

definition random_choice :: "'a list \<Rightarrow> rng \<Rightarrow> error + ('a \<times> rng)" where
  "random_choice xs r =
     (if xs = [] then Inl IndexError
      else case rng_next r of (w, r') \<Rightarrow> Inr (xs ! nat (w mod int (length xs)), r'))"

text \<open>Streams for concrete runs: the listed words, then zeros.\<close>

definition rng_of :: "int list \<Rightarrow> rng" where
  "rng_of ws = (\<lambda>i. if i < length ws then ws ! i else 0)"

section \<open>Weighted choice\<close>

text \<open>
  \<^verbatim>\<open>_WeightedChoice\<close>: parallel lists of values and weights and the running total. A
  weight is a float or the string \<^verbatim>\<open>'+'\<close>, which \<^verbatim>\<open>append\<close> leaves out of the total.
\<close>

datatype weight = Weight rat | Plus

record 'a WeightedChoice =
  total :: rat
  choice_values :: "'a list"
  weights :: "weight list"

definition WeightedChoice_init :: "'a WeightedChoice" where
  "WeightedChoice_init = \<lparr>total = 0, choice_values = [], weights = []\<rparr>"

definition wc_append :: "'a WeightedChoice \<Rightarrow> 'a \<Rightarrow> weight \<Rightarrow> 'a WeightedChoice" where
  "wc_append wc v w =
     wc\<lparr>total := (case w of Plus \<Rightarrow> total wc | Weight x \<Rightarrow> total wc + x),
        choice_values := choice_values wc @ [v],
        weights := weights wc @ [w]\<rparr>"

text \<open>
  The \<^verbatim>\<open>for\<close> loop of \<^verbatim>\<open>choice\<close> over \<^verbatim>\<open>zip(self.weights, self.values)\<close>; subtracting
  the string \<^verbatim>\<open>'+'\<close> from a float is a TypeError, and falling off the end of the loop
  is the AssertionError.
\<close>

fun choice_walk :: "rat \<Rightarrow> weight list \<Rightarrow> 'a list \<Rightarrow> error + 'a" where
  "choice_walk target (Weight w # ws) (v # vs) =
     (if target - w < 0 then Inr v else choice_walk (target - w) ws vs)"
| "choice_walk target (Plus # ws) (v # vs) = Inl TypeError"
| "choice_walk target ws vs = Inl AssertionError"

definition choice :: "'a WeightedChoice \<Rightarrow> rng \<Rightarrow> error + ('a \<times> rng)" where
  "choice wc r =
     (case uniform 0 (total wc) r of (target, r') \<Rightarrow>
        (case choice_walk target (weights wc) (choice_values wc) of
           Inl e \<Rightarrow> Inl e
         | Inr v \<Rightarrow> Inr (v, r')))"

text \<open>
  The inner \<^verbatim>\<open>for\<close> loop of \<^verbatim>\<open>sample\<close>: the index, weight and value of the pick, or
  the AssertionError of the \<^verbatim>\<open>else\<close> branch.
\<close>

fun sample_walk :: "rat \<Rightarrow> nat \<Rightarrow> weight list \<Rightarrow> 'a list \<Rightarrow> error + (nat \<times> rat \<times> 'a)" where
  "sample_walk target i (Weight w # ws) (v # vs) =
     (if target - w < 0 then Inr (i, w, v) else sample_walk (target - w) (Suc i) ws vs)"
| "sample_walk target i (Plus # ws) (v # vs) = Inl TypeError"
| "sample_walk target i ws vs = Inl AssertionError"

text \<open>\<^verbatim>\<open>del xs[i]\<close>\<close>

definition del_at :: "nat \<Rightarrow> 'a list \<Rightarrow> 'a list" where
  "del_at i xs = take i xs @ drop (Suc i) xs"

text \<open>
  The \<^verbatim>\<open>while k and total\<close> loop of \<^verbatim>\<open>sample\<close> on the copied lists. Every round
  that does not raise takes one from \<open>k\<close>.
\<close>

fun sample_loop ::
  "nat \<Rightarrow> rat \<Rightarrow> weight list \<Rightarrow> 'a list \<Rightarrow> 'a list \<Rightarrow> rng \<Rightarrow> error + ('a list \<times> rng)" where
  "sample_loop 0 tot ws vs result r = Inr (result, r)"
| "sample_loop (Suc k) tot ws vs result r =
     (if tot = 0 then Inr (result, r)
      else case uniform 0 tot r of (target, r') \<Rightarrow>
        (case sample_walk target 0 ws vs of
           Inl e \<Rightarrow> Inl e
         | Inr (i, w, v) \<Rightarrow>
             sample_loop k (tot - w) (del_at i ws) (del_at i vs) (result @ [v]) r'))"

text \<open>
  The bounds of a repeat are what the parser stored: a non-negative integer, or the
  string \<^verbatim>\<open>"*"\<close>. \<^verbatim>\<open>sample\<close> receives the repetition count; with the string as
  count the loop is entered when the total is not zero, and \<^verbatim>\<open>k -= 1\<close> after the first
  pick is a TypeError.
\<close>

datatype bound = BInt nat | BStar

definition sample :: "'a WeightedChoice \<Rightarrow> bound \<Rightarrow> rng \<Rightarrow> error + ('a list \<times> rng)" where
  "sample wc k r =
     (case k of
        BInt n \<Rightarrow> sample_loop n (total wc) (weights wc) (choice_values wc) [] r
      | BStar \<Rightarrow>
          if total wc = 0 then Inr ([], r)
          else case uniform 0 (total wc) r of (target, r') \<Rightarrow>
            (case sample_walk target 0 (weights wc) (choice_values wc) of
               Inl e \<Rightarrow> Inl e
             | Inr p \<Rightarrow> Inl TypeError))"

section \<open>Built-in callables\<close>

text \<open>
  A callable takes the argument list and the random source. The built-in
  \<^verbatim>\<open>rndint\<close> is \<^verbatim>\<open>lambda a, b: str(random.randint(int(a), int(b)))\<close>; a call with
  another number of arguments is a TypeError.
\<close>

type_synonym callable = "arg list \<Rightarrow> rng \<Rightarrow> error + (val \<times> rng)"

definition rndint :: "arg \<Rightarrow> arg \<Rightarrow> rng \<Rightarrow> error + (val \<times> rng)" where
  "rndint a b r =
     (case py_int a of
        Inl e \<Rightarrow> Inl e
      | Inr ia \<Rightarrow>
          (case py_int b of
             Inl e \<Rightarrow> Inl e
           | Inr ib \<Rightarrow>
               (case randint ia ib r of
                  Inl e \<Rightarrow> Inl e
                | Inr (n, r') \<Rightarrow> Inr (Text (str_int n), r'))))"

fun rndint_callable :: callable where
  "rndint_callable [a, b] r = rndint a b r"
| "rndint_callable args r = Inl TypeError"

text \<open>
  \<^verbatim>\<open>rndpow2\<close> is
  \<^verbatim>\<open>lambda a, b: str(2 ** random.randint(0, int(a)) + random.randint(-int(b), int(b)))\<close>.
\<close>

definition rndpow2 :: "arg \<Rightarrow> arg \<Rightarrow> rng \<Rightarrow> error + (val \<times> rng)" where
  "rndpow2 a b r =
     (case py_int a of
        Inl e \<Rightarrow> Inl e
      | Inr ia \<Rightarrow>
          (case randint 0 ia r of
             Inl e \<Rightarrow> Inl e
           | Inr (k, r') \<Rightarrow>
               (case py_int b of
                  Inl e \<Rightarrow> Inl e
                | Inr ib \<Rightarrow>
                    (case randint (- ib) ib r' of
                       Inl e \<Rightarrow> Inl e
                     | Inr (j, r'') \<Rightarrow> Inr (Text (str_int (2 ^ nat k + j)), r'')))))"

fun rndpow2_callable :: callable where
  "rndpow2_callable [a, b] r = rndpow2 a b r"
| "rndpow2_callable args r = Inl TypeError"


section \<open>Symbols and the grammar\<close>

text \<open>
  The classes below \<^verbatim>\<open>_Symbol\<close> become the constructors of \<open>kind\<close>, each with the
  attributes its class adds; the attributes of \<^verbatim>\<open>_Symbol\<close> itself are the fields of the
  record. A \<^verbatim>\<open>ChoiceSymbol\<close> is a \<^verbatim>\<open>_WeightedChoice\<close> of alternatives (lists of
  symbol names) with the list \<^verbatim>\<open>_choices_terminate\<close>; \<^verbatim>\<open>RegexSymbol\<close>,
  \<^verbatim>\<open>RepeatSymbol\<close> and \<^verbatim>\<open>RepeatSampleSymbol\<close> are lists of child names as
  \<^verbatim>\<open>ConcatSymbol\<close> is. \<^verbatim>\<open>can_terminate\<close> is \<^verbatim>\<open>None\<close> or a truth value.
\<close>

datatype func_arg = NumArg num | SymArg string

datatype kind =
    AbstractSymbol
  | TextSymbol string
  | TextChoiceSymbol string
  | BinSymbol string
  | ChoiceSymbol "string list WeightedChoice" "bool option list"
  | ConcatSymbol "string list"
  | RegexSymbol "string list"
  | RepeatSymbol bound bound "string list"
  | RepeatSampleSymbol bound bound "string list" "nat option"
  | FuncSymbol string "func_arg list"
  | RefSymbol string

record symbol =
  name :: string
  line_no :: nat
  can_terminate :: "bool option"
  kind :: kind

text \<open>
  Dictionaries are association lists in insertion order: \<open>map_of\<close> reads a key,
  \<open>dict_set\<close> is \<^verbatim>\<open>d[k] = v\<close> (an existing key keeps its place, a new one goes last)
  and \<open>dict_del\<close> is \<^verbatim>\<open>del d[k]\<close>.
\<close>

fun dict_set :: "'k \<Rightarrow> 'v \<Rightarrow> ('k \<times> 'v) list \<Rightarrow> ('k \<times> 'v) list" where
  "dict_set k v [] = [(k, v)]"
| "dict_set k v ((k', v') # d) = (if k = k' then (k, v) # d else (k', v') # dict_set k v d)"

definition dict_del :: "'k \<Rightarrow> ('k \<times> 'v) list \<Rightarrow> ('k \<times> 'v) list" where
  "dict_del k d = filter (\<lambda>kv. fst kv \<noteq> k) d"

record grammar =
  limit :: "int option"
  symtab :: "(string \<times> symbol) list"
  tracked :: "string list"
  funcs :: "(string \<times> callable) list"

definition is_limit_exceeded :: "grammar \<Rightarrow> nat \<Rightarrow> bool" where
  "is_limit_exceeded g len = (case limit g of None \<Rightarrow> False | Some l \<Rightarrow> l \<le> int len)"

text \<open>\<^verbatim>\<open>children()\<close> of each class; the set is listed in the order of the attributes.\<close>

fun func_arg_syms :: "func_arg list \<Rightarrow> string list" where
  "func_arg_syms [] = []"
| "func_arg_syms (NumArg n # as) = func_arg_syms as"
| "func_arg_syms (SymArg s # as) = s # func_arg_syms as"

definition children :: "symbol \<Rightarrow> string list" where
  "children sy =
     (case kind sy of
        ChoiceSymbol wc ct \<Rightarrow> remdups (concat (choice_values wc))
      | ConcatSymbol cs \<Rightarrow> remdups cs
      | RegexSymbol cs \<Rightarrow> remdups cs
      | RepeatSymbol mn mx cs \<Rightarrow> remdups cs
      | RepeatSampleSymbol mn mx cs idx \<Rightarrow> remdups cs
      | FuncSymbol fname args \<Rightarrow> remdups (func_arg_syms args)
      | RefSymbol ref \<Rightarrow> [ref]
      | _ \<Rightarrow> [])"

section \<open>Generation\<close>

subsection \<open>The generation state\<close>

text \<open>
  \<^verbatim>\<open>_GenState\<close>. An entry of \<^verbatim>\<open>symstack\<close> is a symbol name or one of the tuples
  \<^verbatim>\<open>('unwind', name)\<close> and \<^verbatim>\<open>('untrack', name)\<close>. The Python list is a stack with
  its top at the end; here the top is the head of the list, so
  \<^verbatim>\<open>symstack.extend(reversed(xs))\<close> puts \<open>xs\<close> in front.
\<close>

datatype stack_item = Sym string | Unwind string | Untrack string

record gen_state =
  symstack :: "stack_item list"
  instances :: "(string \<times> val list) list"
  gen_output :: "val list"
  gen_length :: nat

definition GenState_init :: gen_state where
  "GenState_init = \<lparr>symstack = [], instances = [], gen_output = [], gen_length = 0\<rparr>"

fun type_name :: "val \<Rightarrow> string" where
  "type_name (Text s) = ''str''"
| "type_name (Bin s) = ''bytes''"

definition GenState_append :: "gen_state \<Rightarrow> val \<Rightarrow> error + gen_state" where
  "GenState_append gs v =
     (if gen_output gs \<noteq> [] \<and> \<not> same_type v (hd (gen_output gs)) then
        Inl (GenerationError (''Wrong value type generated, expecting ''
               @ type_name (hd (gen_output gs)) @ '', got '' @ type_name v))
      else Inr (gs\<lparr>gen_output := gen_output gs @ [v], gen_length := gen_length gs + val_len v\<rparr>))"

definition push :: "string list \<Rightarrow> gen_state \<Rightarrow> gen_state" where
  "push names gs = gs\<lparr>symstack := map Sym names @ symstack gs\<rparr>"

text \<open>
  \<^verbatim>\<open>"".join(xs)\<close> and \<^verbatim>\<open>b"".join(xs)\<close>: a TypeError when an item is of the other
  type. \<^verbatim>\<open>Grammar.generate\<close> returns the first, or the second when the first raises.
\<close>

fun join_str :: "val list \<Rightarrow> error + string" where
  "join_str [] = Inr []"
| "join_str (Text s # vs) = (case join_str vs of Inl e \<Rightarrow> Inl e | Inr t \<Rightarrow> Inr (s @ t))"
| "join_str (Bin s # vs) = Inl TypeError"

fun join_bytes :: "val list \<Rightarrow> error + string" where
  "join_bytes [] = Inr []"
| "join_bytes (Bin s # vs) = (case join_bytes vs of Inl e \<Rightarrow> Inl e | Inr t \<Rightarrow> Inr (s @ t))"
| "join_bytes (Text s # vs) = Inl TypeError"

definition join_output :: "val list \<Rightarrow> error + val" where
  "join_output vs =
     (case join_str vs of
        Inr s \<Rightarrow> Inr (Text s)
      | Inl e \<Rightarrow> (case join_bytes vs of Inr b \<Rightarrow> Inr (Bin b) | Inl e' \<Rightarrow> Inl e'))"

subsection \<open>The \<^verbatim>\<open>generate\<close> methods that only touch the state\<close>

definition TextSymbol_generate :: "string \<Rightarrow> gen_state \<Rightarrow> error + gen_state" where
  "TextSymbol_generate v gs = GenState_append gs (Text v)"

definition BinSymbol_generate :: "string \<Rightarrow> gen_state \<Rightarrow> error + gen_state" where
  "BinSymbol_generate v gs = GenState_append gs (Bin v)"

definition TextChoiceSymbol_generate ::
  "string \<Rightarrow> gen_state \<Rightarrow> rng \<Rightarrow> error + (gen_state \<times> rng)" where
  "TextChoiceSymbol_generate v gs r =
     (case random_choice v r of
        Inl e \<Rightarrow> Inl e
      | Inr (c, r') \<Rightarrow>
          (case GenState_append gs (Text [c]) of Inl e \<Rightarrow> Inl e | Inr gs' \<Rightarrow> Inr (gs', r')))"

definition ConcatSymbol_generate :: "string list \<Rightarrow> gen_state \<Rightarrow> gen_state" where
  "ConcatSymbol_generate cs gs = push cs gs"

text \<open>
  \<^verbatim>\<open>ChoiceSymbol.generate\<close>: the \<^verbatim>\<open>terminators\<close> are the alternatives whose entry of
  \<^verbatim>\<open>_choices_terminate\<close> is true, appended to a new \<^verbatim>\<open>_WeightedChoice\<close>; an
  AssertionError of \<^verbatim>\<open>choice\<close> is raised again as a GenerationError.
\<close>

fun terminators ::
  "'a WeightedChoice \<Rightarrow> 'a list \<Rightarrow> weight list \<Rightarrow> bool option list \<Rightarrow> 'a WeightedChoice" where
  "terminators acc (v # vs) (w # ws) (t # ts) =
     terminators (if t = Some True then wc_append acc v w else acc) vs ws ts"
| "terminators acc vs ws ts = acc"

definition reraise_assertion :: "error \<Rightarrow> error" where
  "reraise_assertion e =
     (if e = AssertionError then GenerationError ''Too much total weight?'' else e)"

definition ChoiceSymbol_generate ::
  "grammar \<Rightarrow> symbol \<Rightarrow> string list WeightedChoice \<Rightarrow> bool option list \<Rightarrow> gen_state \<Rightarrow> rng
     \<Rightarrow> error + (gen_state \<times> rng)" where
  "ChoiceSymbol_generate g sy wc ct gs r =
     (case (if is_limit_exceeded g (gen_length gs) \<and> can_terminate sy = Some True
            then choice (terminators WeightedChoice_init (choice_values wc) (weights wc) ct) r
            else choice wc r) of
        Inl e \<Rightarrow> Inl (reraise_assertion e)
      | Inr (alt, r') \<Rightarrow> Inr (push alt gs, r'))"

text \<open>
  \<^verbatim>\<open>random.randint(self.min_, random.randint(self.min_, self.max_))\<close> on the stored
  bounds. \<^verbatim>\<open>randint(a, b)\<close> first adds 1 to \<open>b\<close>, a TypeError when \<open>b\<close> is the string
  \<^verbatim>\<open>"*"\<close>; with an integer \<open>b\<close> and \<open>a\<close> the string, the conversion of \<open>a\<close> fails
  (a ValueError; a TypeError from Python 3.12 on).
\<close>

definition randint_bound :: "bound \<Rightarrow> bound \<Rightarrow> rng \<Rightarrow> error + (nat \<times> rng)" where
  "randint_bound a b r =
     (case b of
        BStar \<Rightarrow> Inl TypeError
      | BInt hi \<Rightarrow>
          (case a of
             BStar \<Rightarrow> Inl ValueError
           | BInt lo \<Rightarrow>
               (case randint (int lo) (int hi) r of
                  Inl e \<Rightarrow> Inl e
                | Inr (n, r') \<Rightarrow> Inr (nat n, r'))))"

definition draw_reps :: "bound \<Rightarrow> bound \<Rightarrow> rng \<Rightarrow> error + (nat \<times> rng)" where
  "draw_reps mn mx r =
     (case randint_bound mn mx r of
        Inl e \<Rightarrow> Inl e
      | Inr (k, r') \<Rightarrow> randint_bound mn (BInt k) r')"

text \<open>
  The first lines of \<^verbatim>\<open>RepeatSymbol.generate\<close> and \<^verbatim>\<open>RepeatSampleSymbol.generate\<close>:
  \<open>None\<close> is the \<^verbatim>\<open>return\<close> that chops the output, otherwise the repetition count
  \<^verbatim>\<open>reps\<close>, which is \<^verbatim>\<open>self.min_\<close> as stored when the limit is exceeded.
\<close>

definition repeat_reps ::
  "grammar \<Rightarrow> symbol \<Rightarrow> bound \<Rightarrow> bound \<Rightarrow> gen_state \<Rightarrow> rng \<Rightarrow> error + (bound option \<times> rng)" where
  "repeat_reps g sy mn mx gs r =
     (if is_limit_exceeded g (gen_length gs) then
        (if can_terminate sy \<noteq> Some True then Inr (None, r) else Inr (Some mn, r))
      else
        (case draw_reps mn mx r of
           Inl e \<Rightarrow> Inl e
         | Inr (n, r') \<Rightarrow> Inr (Some (BInt n), r')))"

text \<open>\<^verbatim>\<open>reps * tuple(reversed(self))\<close>: a TypeError when \<^verbatim>\<open>reps\<close> is a string.\<close>

definition RepeatSymbol_generate ::
  "grammar \<Rightarrow> symbol \<Rightarrow> bound \<Rightarrow> bound \<Rightarrow> string list \<Rightarrow> gen_state \<Rightarrow> rng
     \<Rightarrow> error + (gen_state \<times> rng)" where
  "RepeatSymbol_generate g sy mn mx cs gs r =
     (case repeat_reps g sy mn mx gs r of
        Inl e \<Rightarrow> Inl e
      | Inr (None, r') \<Rightarrow> Inr (gs, r')
      | Inr (Some BStar, r') \<Rightarrow> Inl TypeError
      | Inr (Some (BInt n), r') \<Rightarrow> Inr (push (concat (replicate n cs)) gs, r'))"

text \<open>
  \<^verbatim>\<open>RepeatSampleSymbol.generate\<close>. Without a \<^verbatim>\<open>sample_idx\<close> the slice
  \<^verbatim>\<open>self[self.sample_idx + 1:]\<close> is a TypeError; an index past the children is an
  IndexError, a missing child a KeyError, and a child that is no \<^verbatim>\<open>ChoiceSymbol\<close> has
  no \<^verbatim>\<open>sample\<close>. Only an AssertionError is raised again as a GenerationError.
\<close>

definition RepeatSampleSymbol_generate ::
  "grammar \<Rightarrow> symbol \<Rightarrow> bound \<Rightarrow> bound \<Rightarrow> string list \<Rightarrow> nat option \<Rightarrow> gen_state \<Rightarrow> rng
     \<Rightarrow> error + (gen_state \<times> rng)" where
  "RepeatSampleSymbol_generate g sy mn mx cs idx gs r =
     (case repeat_reps g sy mn mx gs r of
        Inl e \<Rightarrow> Inl e
      | Inr (None, r') \<Rightarrow> Inr (gs, r')
      | Inr (Some reps, r') \<Rightarrow>
          (case idx of
             None \<Rightarrow> Inl TypeError
           | Some i \<Rightarrow>
               if length cs \<le> i then Inl IndexError
               else
                 (case map_of (symtab g) (cs ! i) of
                    None \<Rightarrow> Inl KeyError
                  | Some child \<Rightarrow>
                      (case kind child of
                         ChoiceSymbol wc ct \<Rightarrow>
                           (case sample wc reps r' of
                              Inl e \<Rightarrow> Inl (reraise_assertion e)
                            | Inr (sel, r'') \<Rightarrow>
                                Inr (push (concat (map (\<lambda>s. take i cs @ s @ drop (Suc i) cs) sel)) gs,
                                     r''))
                       | _ \<Rightarrow> Inl AttributeError))))"


subsection \<open>The expansion loop\<close>

text \<open>
  \<^verbatim>\<open>Grammar.generate\<close> runs its \<^verbatim>\<open>while\<close> loop until the stack is empty, which for
  some grammars is never; \<^verbatim>\<open>FuncSymbol.generate\<close> calls \<^verbatim>\<open>Grammar.generate\<close> on a new
  state for each symbol argument, and \<^verbatim>\<open>RefSymbol.generate\<close> calls the \<^verbatim>\<open>generate\<close>
  method of its target. The three functions below are the loop, the method dispatch and
  the argument loop of \<^verbatim>\<open>FuncSymbol.generate\<close>; each call takes one unit of fuel, and
  \<open>None\<close> is a run that has not ended within the fuel given.

  \<open>tracking\<close> is the local list of \<^verbatim>\<open>Grammar.generate\<close>, its top at the head. The
  \<^verbatim>\<open>instances\<close> dictionary of a nested state is the caller's own object, so the caller
  continues with the dictionary the nested run leaves.
\<close>

definition untrack ::
  "string \<Rightarrow> gen_state \<Rightarrow> (string \<times> nat) list \<Rightarrow> error + (gen_state \<times> (string \<times> nat) list)" where
  "untrack s gs tracking =
     (case tracking of
        [] \<Rightarrow> Inl IndexError
      | (tname, start) # tracking' \<Rightarrow>
          if s \<noteq> tname then Inl AssertionError
          else
            (case join_str (drop start (gen_output gs)) of
               Inl e \<Rightarrow> Inl e
             | Inr inst \<Rightarrow>
                 (case map_of (instances gs) s of
                    None \<Rightarrow> Inl KeyError
                  | Some insts \<Rightarrow>
                      Inr (gs\<lparr>instances := dict_set s (insts @ [Text inst]) (instances gs)\<rparr>,
                           tracking'))))"

text \<open>
  What the loop pushes before it calls the \<^verbatim>\<open>generate\<close> method of the symbol \<open>s\<close>:
  the \<^verbatim>\<open>untrack\<close> entry and the start of the capture when \<open>s\<close> is tracked, then the
  \<^verbatim>\<open>unwind\<close> entry.
\<close>

definition enter :: "grammar \<Rightarrow> string \<Rightarrow> gen_state \<Rightarrow> (string \<times> nat) list
    \<Rightarrow> gen_state \<times> (string \<times> nat) list" where
  "enter g s gs tracking =
     (if s \<in> set (tracked g)
      then (gs\<lparr>symstack := Unwind s # Untrack s # symstack gs\<rparr>,
            (s, length (gen_output gs)) # tracking)
      else (gs\<lparr>symstack := Unwind s # symstack gs\<rparr>, tracking))"

text \<open>The \<^verbatim>\<open>generate\<close> methods that call neither the loop nor another method.\<close>

definition plain_generate ::
  "grammar \<Rightarrow> symbol \<Rightarrow> gen_state \<Rightarrow> rng \<Rightarrow> error + (gen_state \<times> rng)" where
  "plain_generate g sy gs r =
     (case kind sy of
        TextSymbol v \<Rightarrow>
          (case TextSymbol_generate v gs of Inl e \<Rightarrow> Inl e | Inr gs' \<Rightarrow> Inr (gs', r))
      | TextChoiceSymbol v \<Rightarrow> TextChoiceSymbol_generate v gs r
      | BinSymbol v \<Rightarrow>
          (case BinSymbol_generate v gs of Inl e \<Rightarrow> Inl e | Inr gs' \<Rightarrow> Inr (gs', r))
      | ChoiceSymbol wc ct \<Rightarrow> ChoiceSymbol_generate g sy wc ct gs r
      | ConcatSymbol cs \<Rightarrow> Inr (ConcatSymbol_generate cs gs, r)
      | RegexSymbol cs \<Rightarrow> Inr (ConcatSymbol_generate cs gs, r)
      | RepeatSymbol mn mx cs \<Rightarrow> RepeatSymbol_generate g sy mn mx cs gs r
      | RepeatSampleSymbol mn mx cs idx \<Rightarrow> RepeatSampleSymbol_generate g sy mn mx cs idx gs r
      | _ \<Rightarrow> Inl (GenerationError (''Can't generate symbol '' @ name sy)))"

text \<open>The last line of \<^verbatim>\<open>FuncSymbol.generate\<close>: the call and the append.\<close>

definition call_func ::
  "grammar \<Rightarrow> string \<Rightarrow> arg list \<Rightarrow> gen_state \<Rightarrow> rng \<Rightarrow> error + (gen_state \<times> rng)" where
  "call_func g fname args gs r =
     (case map_of (funcs g) fname of
        None \<Rightarrow> Inl KeyError
      | Some f \<Rightarrow>
          (case f args r of
             Inl e \<Rightarrow> Inl e
           | Inr (v, r') \<Rightarrow>
               (case GenState_append gs v of Inl e \<Rightarrow> Inl e | Inr gs' \<Rightarrow> Inr (gs', r'))))"

text \<open>The first branch of \<^verbatim>\<open>RefSymbol.generate\<close>: a random captured instance.\<close>

definition replay :: "val list \<Rightarrow> gen_state \<Rightarrow> rng \<Rightarrow> error + (gen_state \<times> rng)" where
  "replay insts gs r =
     (case random_choice insts r of
        Inl e \<Rightarrow> Inl e
      | Inr (v, r') \<Rightarrow>
          (case GenState_append gs v of Inl e \<Rightarrow> Inl e | Inr gs' \<Rightarrow> Inr (gs', r')))"

definition arg_state :: "string \<Rightarrow> (string \<times> val list) list \<Rightarrow> gen_state" where
  "arg_state s insts =
     \<lparr>symstack = [Sym s], instances = insts, gen_output = [], gen_length = 0\<rparr>"

function (sequential) generate_loop ::
      "nat \<Rightarrow> grammar \<Rightarrow> gen_state \<Rightarrow> (string \<times> nat) list \<Rightarrow> rng
         \<Rightarrow> (error + (gen_state \<times> rng)) option"
  and symbol_generate ::
      "nat \<Rightarrow> grammar \<Rightarrow> symbol \<Rightarrow> gen_state \<Rightarrow> rng \<Rightarrow> (error + (gen_state \<times> rng)) option"
  and func_args ::
      "nat \<Rightarrow> grammar \<Rightarrow> func_arg list \<Rightarrow> (string \<times> val list) list \<Rightarrow> rng
         \<Rightarrow> (error + (arg list \<times> (string \<times> val list) list \<times> rng)) option"
where
  "generate_loop 0 g gs tracking r = None"
| "generate_loop (Suc n) g gs tracking r =
     (case symstack gs of
        [] \<Rightarrow> Some (Inr (gs, r))
      | Unwind s # rest \<Rightarrow> generate_loop n g (gs\<lparr>symstack := rest\<rparr>) tracking r
      | Untrack s # rest \<Rightarrow>
          (case untrack s (gs\<lparr>symstack := rest\<rparr>) tracking of
             Inl e \<Rightarrow> Some (Inl e)
           | Inr (gs', tracking') \<Rightarrow> generate_loop n g gs' tracking' r)
      | Sym s # rest \<Rightarrow>
          (case map_of (symtab g) s of
             None \<Rightarrow> Some (Inl KeyError)
           | Some sy \<Rightarrow>
               (case symbol_generate n g sy (fst (enter g s (gs\<lparr>symstack := rest\<rparr>) tracking)) r of
                  None \<Rightarrow> None
                | Some (Inl e) \<Rightarrow> Some (Inl e)
                | Some (Inr (gs', r')) \<Rightarrow>
                    generate_loop n g gs' (snd (enter g s (gs\<lparr>symstack := rest\<rparr>) tracking)) r')))"
| "symbol_generate 0 g sy gs r = None"
| "symbol_generate (Suc n) g sy gs r =
     (case kind sy of
        FuncSymbol fname fargs \<Rightarrow>
          (case func_args n g fargs (instances gs) r of
             None \<Rightarrow> None
           | Some (Inl e) \<Rightarrow> Some (Inl e)
           | Some (Inr (args, insts, r')) \<Rightarrow>
               Some (call_func g fname args (gs\<lparr>instances := insts\<rparr>) r'))
      | RefSymbol ref \<Rightarrow>
          (case map_of (instances gs) ref of
             None \<Rightarrow> Some (Inl KeyError)
           | Some [] \<Rightarrow>
               (case map_of (symtab g) ref of
                  None \<Rightarrow> Some (Inl KeyError)
                | Some target \<Rightarrow> symbol_generate n g target gs r)
           | Some (i # insts) \<Rightarrow> Some (replay (i # insts) gs r))
      | _ \<Rightarrow> Some (plain_generate g sy gs r))"
| "func_args 0 g fargs insts r = None"
| "func_args (Suc n) g [] insts r = Some (Inr ([], insts, r))"
| "func_args (Suc n) g (NumArg x # fargs) insts r =
     (case func_args n g fargs insts r of
        None \<Rightarrow> None
      | Some (Inl e) \<Rightarrow> Some (Inl e)
      | Some (Inr (args, insts', r')) \<Rightarrow> Some (Inr (Num x # args, insts', r')))"
| "func_args (Suc n) g (SymArg s # fargs) insts r =
     (case generate_loop n g (arg_state s insts) [] r of
        None \<Rightarrow> None
      | Some (Inl e) \<Rightarrow> Some (Inl e)
      | Some (Inr (astate, r')) \<Rightarrow>
          (case join_output (gen_output astate) of
             Inl e \<Rightarrow> Some (Inl e)
           | Inr v \<Rightarrow>
               (case func_args n g fargs (instances astate) r' of
                  None \<Rightarrow> None
                | Some (Inl e) \<Rightarrow> Some (Inl e)
                | Some (Inr (args, insts', r'')) \<Rightarrow> Some (Inr (Val v # args, insts', r'')))))"

  by pat_completeness auto

termination
  by (relation "measure (\<lambda>x. case x of Inl a \<Rightarrow> fst a | Inr (Inl b) \<Rightarrow> fst b | Inr (Inr c) \<Rightarrow> fst c)")
     auto

text \<open>
  \<^verbatim>\<open>Grammar.generate(start)\<close> for a symbol name: a new state whose stack holds the
  start symbol and whose \<^verbatim>\<open>instances\<close> has an empty list for every tracked symbol.
\<close>

definition initial_state :: "grammar \<Rightarrow> string \<Rightarrow> gen_state" where
  "initial_state g start =
     \<lparr>symstack = [Sym start], instances = map (\<lambda>s. (s, [])) (tracked g),
      gen_output = [], gen_length = 0\<rparr>"

definition generate :: "nat \<Rightarrow> grammar \<Rightarrow> string \<Rightarrow> rng \<Rightarrow> (error + (val \<times> rng)) option" where
  "generate fuel g start r =
     (case generate_loop fuel g (initial_state g start) [] r of
        None \<Rightarrow> None
      | Some (Inl e) \<Rightarrow> Some (Inl e)
      | Some (Inr (gs, r')) \<Rightarrow>
          (case join_output (gen_output gs) of
             Inl e \<Rightarrow> Some (Inl e)
           | Inr v \<Rightarrow> Some (Inr (v, r'))))"

section \<open>Regular expressions of the host\<close>

text \<open>
  The module reads its input with patterns of \<^verbatim>\<open>re\<close>. A pattern is modelled by its
  syntax tree and matched as the library matches it: by backtracking, alternatives in
  their order, quantifiers greedy, a group holding the text of its last match. Only the
  constructs the module's patterns use are present. Characters are bytes: \<^verbatim>\<open>\w\<close> is
  a letter, a digit or the underscore, \<^verbatim>\<open>\d\<close> a digit and \<^verbatim>\<open>\s\<close> one of the six
  ASCII whitespace characters; \<^verbatim>\<open>.\<close> is any character but the newline.
\<close>

datatype char_item = Any | Word | Digit | Space | Chars string

datatype regex =
    Cls "char_item list"
  | NotCls "char_item list"
  | Empty
  | Eol
  | Cat regex regex
  | Or regex regex
  | Star regex
  | Grp string regex

definition is_word :: "char \<Rightarrow> bool" where
  "is_word c =
     (c \<in> set ''abcdefghijklmnopqrstuvwxyzABCDEFGHIJKLMNOPQRSTUVWXYZ0123456789_'')"

fun in_item :: "char_item \<Rightarrow> char \<Rightarrow> bool" where
  "in_item Any c = (c \<noteq> CHR 0x0A)"
| "in_item Word c = is_word c"
| "in_item Digit c = is_digit c"
| "in_item Space c = is_space c"
| "in_item (Chars s) c = (c \<in> set s)"

definition in_class :: "char_item list \<Rightarrow> char \<Rightarrow> bool" where
  "in_class items c = list_ex (\<lambda>i. in_item i c) items"

type_synonym groups = "(string \<times> string) list"

text \<open>
  \<open>re_match p s g k\<close> matches \<open>p\<close> at the start of \<open>s\<close> and hands the rest of the
  text and the groups to the continuation \<open>k\<close>; where \<open>k\<close> fails, the next way of
  matching \<open>p\<close> is tried. \<^verbatim>\<open>$\<close> matches at the end of the text and before a newline
  that ends it.
\<close>

function (sequential) re_match ::
  "regex \<Rightarrow> string \<Rightarrow> groups \<Rightarrow> (string \<Rightarrow> groups \<Rightarrow> (string \<times> groups) option)
     \<Rightarrow> (string \<times> groups) option" where
  "re_match (Cls items) s g k =
     (case s of [] \<Rightarrow> None | c # cs \<Rightarrow> if in_class items c then k cs g else None)"
| "re_match (NotCls items) s g k =
     (case s of [] \<Rightarrow> None | c # cs \<Rightarrow> if in_class items c then None else k cs g)"
| "re_match Empty s g k = k s g"
| "re_match Eol s g k = (if s = [] \<or> s = [CHR 0x0A] then k s g else None)"
| "re_match (Cat a b) s g k = re_match a s g (\<lambda>s' g'. re_match b s' g' k)"
| "re_match (Or a b) s g k =
     (case re_match a s g k of Some x \<Rightarrow> Some x | None \<Rightarrow> re_match b s g k)"
| "re_match (Star a) s g k =
     (case re_match a s g
             (\<lambda>s' g'. if length s' < length s then re_match (Star a) s' g' k else None) of
        Some x \<Rightarrow> Some x
      | None \<Rightarrow> k s g)"
| "re_match (Grp n a) s g k =
     re_match a s g (\<lambda>s' g'. k s' (dict_set n (take (length s - length s') s) g'))"
  by pat_completeness auto

termination
  by (relation "measures [\<lambda>(p, s, g, k). size p, \<lambda>(p, s, g, k). length s]") auto

definition Plus_re :: "regex \<Rightarrow> regex" where
  "Plus_re a = Cat a (Star a)"

definition Opt :: "regex \<Rightarrow> regex" where
  "Opt a = Or a Empty"

definition Lit :: "string \<Rightarrow> regex" where
  "Lit s = foldr (\<lambda>c p. Cat (Cls [Chars [c]]) p) s Empty"

text \<open>
  \<^verbatim>\<open>pattern.match(s)\<close>: the groups and the rest of the text after the match, so that
  \<^verbatim>\<open>match.end(0)\<close> is the length of what is gone and \<^verbatim>\<open>match.group(0)\<close> is that
  prefix.
\<close>

definition re_match_start :: "regex \<Rightarrow> string \<Rightarrow> (string \<times> groups) option" where
  "re_match_start p s = re_match p s [] (\<lambda>s' g'. Some (s', g'))"

definition group :: "groups \<Rightarrow> string \<Rightarrow> string option" where
  "group g n = map_of g n"

text \<open>An unmatched group is \<^verbatim>\<open>None\<close> and a group that matched nothing is empty: both are false.\<close>

definition group_true :: "groups \<Rightarrow> string \<Rightarrow> bool" where
  "group_true g n = (case map_of g n of None \<Rightarrow> False | Some s \<Rightarrow> s \<noteq> [])"

section \<open>Parsing\<close>

subsection \<open>The parser state\<close>

text \<open>
  \<^verbatim>\<open>_ParseState\<close>, together with the two attributes of the grammar that parsing
  writes: the symbol table and the set of tracked names. \<^verbatim>\<open>imports\<close> maps a friendly
  name to the hash of the imported grammar and the line of the import.
\<close>

record parse_state =
  ps_prefix :: string
  ps_imports :: "(string \<times> string \<times> nat) list"
  ps_imports_used :: "string list"
  ps_line_no :: nat
  ps_n_implicit :: int
  ps_name :: "string option"
  ps_symtab :: "(string \<times> symbol) list"
  ps_tracked :: "string list"

definition implicit :: "parse_state \<Rightarrow> int \<times> parse_state" where
  "implicit ps = (ps_n_implicit ps + 1, ps\<lparr>ps_n_implicit := ps_n_implicit ps + 1\<rparr>)"

text \<open>\<^verbatim>\<open>s.split(".", 1)\<close>: the parts before and after the first dot, if there is one.\<close>

fun split_dot :: "string \<Rightarrow> (string \<times> string) option" where
  "split_dot [] = None"
| "split_dot (c # cs) =
     (if c = CHR ''.'' then Some ([], cs)
      else case split_dot cs of None \<Rightarrow> None | Some (a, b) \<Rightarrow> Some (c # a, b))"

definition get_prefixed ::
  "string option \<Rightarrow> string \<Rightarrow> parse_state \<Rightarrow> error + (string \<times> parse_state)" where
  "get_prefixed symprefix s ps =
     (case symprefix of
        None \<Rightarrow> Inr (ps_prefix ps @ ''.'' @ s, ps)
      | Some p \<Rightarrow>
          if p = [] then Inr (ps_prefix ps @ ''.'' @ s, ps)
          else
            (case map_of (ps_imports ps) (butlast p) of
               None \<Rightarrow>
                 Inl (ParseError (''Attempt to use symbol from unknown prefix: '' @ butlast p))
             | Some (h, l) \<Rightarrow>
                 Inr (h @ ''.'' @ s,
                      ps\<lparr>ps_imports_used := List.insert (butlast p) (ps_imports_used ps)\<rparr>)))"

subsection \<open>Constructors\<close>

text \<open>
  \<^verbatim>\<open>_Symbol.__init__\<close>. The object goes into the symbol table under its name unless
  \<^verbatim>\<open>no_add\<close> is set; an entry of that name may only be replaced when it is an
  \<^verbatim>\<open>_AbstractSymbol\<close> or a \<^verbatim>\<open>RefSymbol\<close>. A name without a dot makes
  \<^verbatim>\<open>name.split(".", 1)[1]\<close> an IndexError. The constructors of the subclasses set
  their attributes after this call on the same object; here the object is entered with
  them.
\<close>

definition is_placeholder :: "kind \<Rightarrow> bool" where
  "is_placeholder k = (case k of AbstractSymbol \<Rightarrow> True | RefSymbol r \<Rightarrow> True | _ \<Rightarrow> False)"

definition redefinition :: "string \<Rightarrow> nat \<Rightarrow> error" where
  "redefinition unprefixed line =
     ParseError (''Redefinition of symbol '' @ unprefixed @ '' previously declared on line ''
                 @ str_int (int line))"

definition Symbol_init ::
  "string \<Rightarrow> bool option \<Rightarrow> kind \<Rightarrow> bool \<Rightarrow> parse_state \<Rightarrow> error + parse_state" where
  "Symbol_init nm ct k no_add ps =
     (if nm = ps_prefix ps @ ''.import'' then Inl (ParseError '''import' is a reserved name'')
      else
        (case split_dot nm of
           None \<Rightarrow> Inl IndexError
         | Some (pre, unprefixed) \<Rightarrow>
             (case map_of (ps_imports ps) unprefixed of
                Some (h, l) \<Rightarrow> Inl (redefinition unprefixed l)
              | None \<Rightarrow>
                  if no_add then Inr ps
                  else
                    (let entry = \<lparr>name = nm, line_no = ps_line_no ps, can_terminate = ct, kind = k\<rparr>
                     in case map_of (ps_symtab ps) nm of
                          None \<Rightarrow> Inr (ps\<lparr>ps_symtab := dict_set nm entry (ps_symtab ps)\<rparr>)
                        | Some old \<Rightarrow>
                            if is_placeholder (kind old)
                            then Inr (ps\<lparr>ps_symtab := dict_set nm entry (ps_symtab ps)\<rparr>)
                            else Inl (redefinition unprefixed (line_no old))))))"

definition line_tag :: "string \<Rightarrow> parse_state \<Rightarrow> int \<Rightarrow> string" where
  "line_tag what ps i =
     ''['' @ what @ '' (line '' @ str_int (int (ps_line_no ps)) @ '' #'' @ str_int i @ '')]''"

text \<open>
  \<^verbatim>\<open>TextSymbol.__init__\<close> and, with \<open>is_choice\<close>, the subclass
  \<^verbatim>\<open>_TextChoiceSymbol\<close>, which only differs in \<^verbatim>\<open>generate\<close>. The result is the
  name of the new symbol.
\<close>

definition TextSymbol_init ::
  "string option \<Rightarrow> string \<Rightarrow> bool \<Rightarrow> bool \<Rightarrow> bool \<Rightarrow> parse_state
     \<Rightarrow> error + (string \<times> parse_state)" where
  "TextSymbol_init nm v is_choice no_prefix no_add ps =
     (let (nm1, ps1) =
            (case nm of
               Some n \<Rightarrow> (n, ps)
             | None \<Rightarrow>
                 if no_add then (line_tag ''text'' ps (- 1), ps)
                 else (line_tag ''text'' ps (fst (implicit ps)), snd (implicit ps)));
          nm2 = (if no_prefix then nm1 else ps_prefix ps @ ''.'' @ nm1)
      in case Symbol_init nm2 (Some True)
                (if is_choice then TextChoiceSymbol v else TextSymbol v) no_add ps1 of
           Inl e \<Rightarrow> Inl e
         | Inr ps2 \<Rightarrow> Inr (nm2, ps2))"

text \<open>
  \<^verbatim>\<open>binascii.unhexlify\<close>: two hexadecimal digits for each byte. In Python 3 a text
  with other characters or of odd length raises \<^verbatim>\<open>binascii.Error\<close>, a ValueError that
  \<^verbatim>\<open>BinSymbol.__init__\<close> does not catch; a character outside ASCII fails to encode,
  which it raises again as a ParseError.
\<close>

definition hex_val :: "char \<Rightarrow> nat option" where
  "hex_val c =
     (if is_digit c then Some (of_char c - 48)
      else if c \<in> set ''abcdef'' then Some (of_char c - 87)
      else if c \<in> set ''ABCDEF'' then Some (of_char c - 55)
      else None)"

fun unhexlify :: "string \<Rightarrow> error + string" where
  "unhexlify [] = Inr []"
| "unhexlify [c] = Inl ValueError"
| "unhexlify (c # d # cs) =
     (case (hex_val c, hex_val d) of
        (Some h, Some l) \<Rightarrow>
          (case unhexlify cs of Inl e \<Rightarrow> Inl e | Inr bs \<Rightarrow> Inr (char_of (16 * h + l) # bs))
      | _ \<Rightarrow> Inl ValueError)"

definition BinSymbol_init :: "string \<Rightarrow> parse_state \<Rightarrow> error + (string \<times> parse_state)" where
  "BinSymbol_init v ps =
     (let nm = ps_prefix ps @ ''.'' @ line_tag ''bin'' ps (fst (implicit ps));
          ps1 = snd (implicit ps)
      in if \<exists>c \<in> set v. 128 \<le> (of_char c :: nat)
         then (case Symbol_init nm None (BinSymbol []) False ps1 of
                 Inl e \<Rightarrow> Inl e
               | Inr ps2 \<Rightarrow> Inl (ParseError ''Invalid hex string''))
         else
           (case Symbol_init nm None (BinSymbol []) False ps1 of
              Inl e \<Rightarrow> Inl e
            | Inr ps2 \<Rightarrow>
                (case unhexlify v of
                   Inl e \<Rightarrow> Inl e
                 | Inr bs \<Rightarrow>
                     (case Symbol_init nm (Some True) (BinSymbol bs) False ps1 of
                        Inl e \<Rightarrow> Inl e
                      | Inr ps3 \<Rightarrow> Inr (nm, ps3)))))"

text \<open>
  \<^verbatim>\<open>ConcatSymbol.__init__\<close> and the constructors of its subclasses, with the children
  the caller gives the new object after the call.
\<close>

definition ConcatSymbol_init ::
  "string \<Rightarrow> bool \<Rightarrow> string list \<Rightarrow> parse_state \<Rightarrow> error + (string \<times> parse_state)" where
  "ConcatSymbol_init nm no_prefix cs ps =
     (let nm' = (if no_prefix then nm else ps_prefix ps @ ''.'' @ nm)
      in case Symbol_init nm' None (ConcatSymbol cs) False ps of
           Inl e \<Rightarrow> Inl e
         | Inr ps' \<Rightarrow> Inr (nm', ps'))"

definition RepeatSymbol_init ::
  "bool \<Rightarrow> string \<Rightarrow> bound \<Rightarrow> bound \<Rightarrow> bool \<Rightarrow> string list \<Rightarrow> parse_state
     \<Rightarrow> error + (string \<times> parse_state)" where
  "RepeatSymbol_init is_sample nm mn mx no_prefix cs ps =
     (let nm' = (if no_prefix then nm else ps_prefix ps @ ''.'' @ nm)
      in case Symbol_init nm' None
                (if is_sample then RepeatSampleSymbol mn mx cs None else RepeatSymbol mn mx cs)
                False ps of
           Inl e \<Rightarrow> Inl e
         | Inr ps' \<Rightarrow> Inr (nm', ps'))"

text \<open>Writing an attribute of an object that is in the symbol table.\<close>

definition set_kind :: "string \<Rightarrow> kind \<Rightarrow> parse_state \<Rightarrow> parse_state" where
  "set_kind nm k ps =
     ps\<lparr>ps_symtab := map (\<lambda>(n, sy). if n = nm then (n, sy\<lparr>kind := k\<rparr>) else (n, sy)) (ps_symtab ps)\<rparr>"

subsection \<open>\<^verbatim>\<open>TextSymbol.parse\<close> and \<^verbatim>\<open>BinSymbol.parse\<close>\<close>

definition ESCAPES :: "char \<Rightarrow> char" where
  "ESCAPES c =
     (if c = CHR ''f'' then CHR 0x0C
      else if c = CHR ''n'' then CHR 0x0A
      else if c = CHR ''r'' then CHR 0x0D
      else if c = CHR ''t'' then CHR 0x09
      else if c = CHR ''v'' then CHR 0x0B
      else c)"

text \<open>
  The loop of \<^verbatim>\<open>TextSymbol.parse\<close> over the matches of
  \<^verbatim>\<open>(?P<end>["'])|\\(?P<esc>.)\<close> in the text after the opening quote: a quote that is
  the opening one ends the literal, the other quote and every character that matches
  nothing stand for themselves, a backslash with a character other than the newline is
  the escape. The result is the value and the rest of the text; \<open>None\<close> is the
  \<^verbatim>\<open>else\<close> branch of the loop.
\<close>

fun text_scan :: "char \<Rightarrow> string \<Rightarrow> string \<Rightarrow> (string \<times> string) option" where
  "text_scan q acc [] = None"
| "text_scan q acc (c # cs) =
     (if c = CHR 0x22 \<or> c = CHR 0x27 then
        (if c = q then Some (acc, cs) else text_scan q (acc @ [c]) cs)
      else if c = CHR 0x5C then
        (case cs of
           [] \<Rightarrow> text_scan q (acc @ [c]) cs
         | d # ds \<Rightarrow>
             if d = CHR 0x0A then text_scan q (acc @ [c]) cs
             else text_scan q (acc @ [ESCAPES d]) ds)
      else text_scan q (acc @ [c]) cs)"

definition TextSymbol_parse ::
  "string \<Rightarrow> bool \<Rightarrow> parse_state \<Rightarrow> error + (string \<times> string \<times> string \<times> parse_state)" where
  "TextSymbol_parse defn no_add ps =
     (case defn of
        [] \<Rightarrow> Inl IndexError
      | qchar # rest \<Rightarrow>
          if qchar \<noteq> CHR 0x22 \<and> qchar \<noteq> CHR 0x27
          then Inl (ParseError (''Error parsing string, expected \" or ' at: '' @ defn))
          else
            (case text_scan qchar [] rest of
               None \<Rightarrow> Inl (ParseError ''Unterminated string literal!'')
             | Some (v, rest') \<Rightarrow>
                 (case TextSymbol_init None v False False no_add ps of
                    Inl e \<Rightarrow> Inl e
                  | Inr (nm, ps') \<Rightarrow> Inr (nm, v, rest', ps'))))"

text \<open>\<^verbatim>\<open>s.find(c)\<close>: the text before the first \<open>c\<close> and the text after it.\<close>

fun find_char :: "char \<Rightarrow> string \<Rightarrow> (string \<times> string) option" where
  "find_char q [] = None"
| "find_char q (c # cs) =
     (if c = q then Some ([], cs)
      else case find_char q cs of None \<Rightarrow> None | Some (a, b) \<Rightarrow> Some (c # a, b))"

definition BinSymbol_parse ::
  "string \<Rightarrow> parse_state \<Rightarrow> error + (string \<times> string \<times> parse_state)" where
  "BinSymbol_parse defn ps =
     (case defn of
        start # qchar # rest \<Rightarrow>
          if start \<noteq> CHR ''x'' then Inl (ParseError (''Error parsing binary string at: '' @ defn))
          else if qchar \<noteq> CHR 0x22 \<and> qchar \<noteq> CHR 0x27
          then Inl (ParseError (''Error parsing binary string at: '' @ tl defn))
          else
            (case find_char qchar rest of
               None \<Rightarrow> Inl (ParseError ''Unterminated bin literal!'')
             | Some (v, rest') \<Rightarrow>
                 (case BinSymbol_init v ps of
                    Inl e \<Rightarrow> Inl e
                  | Inr (nm, ps') \<Rightarrow> Inr (nm, rest', ps')))
      | _ \<Rightarrow> Inl IndexError)"

subsection \<open>\<^verbatim>\<open>RegexSymbol.parse\<close>\<close>

definition REGEX_ALPHABET :: string where
  "REGEX_ALPHABET =
     ''ABCDEFGHIJKLMNOPQRSTUVWXYZ'' @ ''abcdefghijklmnopqrstuvwxyz'' @ ''0123456789''
     @ '',./<>?;':\"[]'' @ [CHR 0x5C] @ ''{}|=_+`~!@#$%^&*() -''"

text \<open>
  \<^verbatim>\<open>_RE_PARSE\<close>:
  \<^verbatim>\<open>^((?P<repeat>\{\s*(?P<a>\d+)\s*(,\s*(?P<b>\d+)\s*)?\}|\?)|(?P<set>\[\^?)|(?P<esc>\\.)|(?P<dot>\.)|(?P<done>/))\<close>
\<close>

definition RE_PARSE :: regex where
  "RE_PARSE =
     Or (Grp ''repeat''
           (Or (Cat (Lit ''{'')
                 (Cat (Star (Cls [Space]))
                   (Cat (Grp ''a'' (Plus_re (Cls [Digit])))
                     (Cat (Star (Cls [Space]))
                       (Cat (Opt (Cat (Lit '','')
                                   (Cat (Star (Cls [Space]))
                                     (Cat (Grp ''b'' (Plus_re (Cls [Digit])))
                                          (Star (Cls [Space]))))))
                            (Lit ''}''))))))
               (Lit ''?'')))
    (Or (Grp ''set'' (Cat (Lit ''['') (Opt (Lit ''^''))))
    (Or (Grp ''esc'' (Cat (Cls [Chars [CHR 0x5C]]) (Cls [Any])))
    (Or (Grp ''dot'' (Lit ''.''))
        (Grp ''done'' (Lit ''/'')))))"

text \<open>\<^verbatim>\<open>_RE_SET\<close>: \<^verbatim>\<open>^(\]|-|\\?.)\<close>\<close>

definition RE_SET :: regex where
  "RE_SET = Or (Lit '']'') (Or (Lit ''-'') (Cat (Opt (Cls [Chars [CHR 0x5C]])) (Cls [Any])))"

text \<open>\<^verbatim>\<open>int(s)\<close> for a text that \<^verbatim>\<open>\d+\<close> has matched.\<close>

definition nat_of_digits :: "string \<Rightarrow> nat" where
  "nat_of_digits s = foldl (\<lambda>n c. 10 * n + digit_val c) 0 s"

text \<open>
  The character that a match of \<^verbatim>\<open>_RE_SET\<close> other than \<^verbatim>\<open>]\<close> and \<^verbatim>\<open>-\<close> adds to
  the set: after a backslash the escape of the second character (an IndexError when
  there is none), else the character itself.
\<close>

definition set_char :: "string \<Rightarrow> error + char" where
  "set_char tok =
     (case tok of
        [] \<Rightarrow> Inl IndexError
      | c # cs \<Rightarrow>
          if c = CHR 0x5C then (case cs of [] \<Rightarrow> Inl IndexError | d # ds \<Rightarrow> Inr (ESCAPES d))
          else Inr c)"

text \<open>
  The inner \<^verbatim>\<open>while\<close> loop over a character set. \<open>alpha\<close> is the list of characters
  so far and \<open>in_range\<close> the flag of the code. The result is the list at the closing
  bracket and the text after it.
\<close>

function regex_set :: "string \<Rightarrow> string \<Rightarrow> bool \<Rightarrow> error + (string \<times> string)" where
  "regex_set defn alpha in_range =
     (if defn = [] then Inl (ParseError ''Unterminated set in regex'')
      else
        (case re_match_start RE_SET defn of
           None \<Rightarrow> Inl AttributeError
         | Some (rest, g) \<Rightarrow>
             if take (length defn - length rest) defn = '']'' then
               Inr (if in_range then alpha @ ''-'' else alpha, rest)
             else if \<not> length rest < length defn then Inl Stuck
             else if take (length defn - length rest) defn = ''-'' then
               (if in_range \<or> alpha = []
                then Inl (ParseError (''Parse error in regex at: '' @ defn))
                else regex_set rest alpha True)
             else
               (case set_char (take (length defn - length rest) defn) of
                  Inl e \<Rightarrow> Inl e
                | Inr c \<Rightarrow>
                    if in_range then
                      (if (of_char c :: nat) + 1 \<le> of_char (last alpha)
                       then Inl (ParseError (''Empty range in regex at: '' @ defn))
                       else regex_set rest
                              (alpha @ [c] @ map char_of [of_char (last alpha) ..< of_char c + (1::nat)])
                              False)
                    else regex_set rest (alpha @ [c]) False)))"
  by pat_completeness auto

termination
  by (relation "measure (\<lambda>(defn, alpha, in_range). length defn)") auto

text \<open>
  \<^verbatim>\<open>"".join(set(alpha))\<close>, and for an inverted set the characters of the alphabet
  that are not in it. The host does not specify the order in which a set is listed;
  the model lists each character once, in the order of \<open>remdups\<close>.
\<close>

definition set_alphabet :: "bool \<Rightarrow> string \<Rightarrow> string" where
  "set_alphabet inverted alpha =
     (if inverted then filter (\<lambda>c. c \<notin> set alpha) (remdups REGEX_ALPHABET) else remdups alpha)"

text \<open>\<^verbatim>\<open>_impl_name\<close> for the counter value \<open>n\<close> of the regex named \<open>rname\<close>.\<close>

definition impl_name :: "string \<Rightarrow> nat \<Rightarrow> string" where
  "impl_name rname n = butlast rname @ ''.'' @ str_int (int n) @ '']''"

definition is_repeat :: "kind \<Rightarrow> bool" where
  "is_repeat k =
     (case k of RepeatSymbol mn mx cs \<Rightarrow> True | RepeatSampleSymbol mn mx cs i \<Rightarrow> True | _ \<Rightarrow> False)"

text \<open>
  The branch of the loop for a match of the group \<^verbatim>\<open>repeat\<close>, with
  \<^verbatim>\<open>add_repeat\<close>: the new \<^verbatim>\<open>RepeatSymbol\<close> takes the last child of the regex and
  stands in its place.
\<close>

definition regex_repeat ::
  "string \<Rightarrow> groups \<Rightarrow> string \<Rightarrow> string list \<Rightarrow> nat \<Rightarrow> parse_state
     \<Rightarrow> error + (string list \<times> parse_state)" where
  "regex_repeat defn g rname res n ps =
     (if res = [] then Inl (ParseError (''Error parsing regex, unexpected repeat at: '' @ defn))
      else
        (case map_of (ps_symtab ps) (last res) of
           None \<Rightarrow> Inl KeyError
         | Some prev \<Rightarrow>
             if is_repeat (kind prev)
             then Inl (ParseError (''Error parsing regex, unexpected repeat at: '' @ defn))
             else
               (let mn = (if group_true g ''a'' then nat_of_digits (the (group g ''a'')) else 0);
                    mx = (if group_true g ''a''
                          then (if group_true g ''b'' then nat_of_digits (the (group g ''b'')) else mn)
                          else 1)
                in case RepeatSymbol_init False (impl_name rname n) (BInt mn) (BInt mx) True
                          [last res] ps of
                     Inl e \<Rightarrow> Inl e
                   | Inr (nm, ps') \<Rightarrow> Inr (butlast res @ [nm], ps'))))"

text \<open>
  The branch for \<^verbatim>\<open>.\<close>: the shared symbol \<^verbatim>\<open>[regex alpha]\<close> is made when the
  symbol table has none.
\<close>

definition regex_dot :: "parse_state \<Rightarrow> error + parse_state" where
  "regex_dot ps =
     (case map_of (ps_symtab ps) ''[regex alpha]'' of
        Some sy \<Rightarrow> Inr ps
      | None \<Rightarrow>
          (case TextSymbol_init (Some ''[regex alpha]'') REGEX_ALPHABET True True False ps of
             Inl e \<Rightarrow> Inl e
           | Inr (nm, ps') \<Rightarrow>
               Inr (ps'\<lparr>ps_symtab :=
                      map (\<lambda>(k, sy). if k = nm then (k, sy\<lparr>line_no := 0\<rparr>) else (k, sy))
                        (ps_symtab ps')\<rparr>)))"

text \<open>
  The outer \<^verbatim>\<open>while\<close> loop. \<open>res\<close> is the list of children of the regex so far and
  \<open>n\<close> the counter \<^verbatim>\<open>n_implicit[0]\<close>. The result is the list of children and the text
  after the closing slash.
\<close>

function regex_loop ::
  "string \<Rightarrow> string \<Rightarrow> string list \<Rightarrow> nat \<Rightarrow> parse_state
     \<Rightarrow> error + (string list \<times> string \<times> parse_state)" where
  "regex_loop defn rname res n ps =
     (if defn = [] then Inl (ParseError ''Unterminated regular expression'')
      else
        (case re_match_start RE_PARSE defn of
           None \<Rightarrow>
             (case TextSymbol_init (Some (impl_name rname n)) [hd defn] False True False ps of
                Inl e \<Rightarrow> Inl e
              | Inr (nm, ps') \<Rightarrow> regex_loop (tl defn) rname (res @ [nm]) (Suc n) ps')
         | Some (rest, g) \<Rightarrow>
             if group_true g ''done'' \<and> \<not> group_true g ''set'' then Inr (res, rest, ps)
             else if \<not> length rest < length defn then Inl Stuck
             else if group_true g ''set'' then
               (case regex_set rest [] False of
                  Inl e \<Rightarrow> Inl e
                | Inr (alpha, rest') \<Rightarrow>
                    if \<not> length rest' < length defn then Inl Stuck
                    else
                      (case TextSymbol_init (Some (impl_name rname n))
                              (set_alphabet (length (the (group g ''set'')) = 2) alpha)
                              True True False ps of
                         Inl e \<Rightarrow> Inl e
                       | Inr (nm, ps') \<Rightarrow> regex_loop rest' rname (res @ [nm]) (Suc n) ps'))
             else if group_true g ''dot'' then
               (case regex_dot ps of
                  Inl e \<Rightarrow> Inl e
                | Inr ps' \<Rightarrow> regex_loop rest rname (res @ [''[regex alpha]'']) n ps')
             else if group_true g ''esc'' then
               (case TextSymbol_init (Some (impl_name rname n))
                       [ESCAPES (the (group g ''esc'') ! 1)] False True False ps of
                  Inl e \<Rightarrow> Inl e
                | Inr (nm, ps') \<Rightarrow> regex_loop rest rname (res @ [nm]) (Suc n) ps')
             else
               (case regex_repeat defn g rname res n ps of
                  Inl e \<Rightarrow> Inl e
                | Inr (res', ps') \<Rightarrow> regex_loop rest rname res' (Suc n) ps')))"
  by pat_completeness auto

termination
  by (relation "measure (\<lambda>(defn, rname, res, n, ps). length defn)") auto

text \<open>
  \<^verbatim>\<open>RegexSymbol.parse\<close>: the new \<^verbatim>\<open>RegexSymbol\<close> is entered first, and the children
  the loop has collected are its list when the loop returns. The result is the name of
  the symbol and the rest of the text.
\<close>

definition RegexSymbol_parse ::
  "string \<Rightarrow> parse_state \<Rightarrow> error + (string \<times> string \<times> parse_state)" where
  "RegexSymbol_parse defn ps =
     (let rname = ps_prefix ps @ ''.'' @ line_tag ''regex'' ps (fst (implicit ps))
      in case Symbol_init rname (Some True) (RegexSymbol []) False (snd (implicit ps)) of
           Inl e \<Rightarrow> Inl e
         | Inr ps1 \<Rightarrow>
             (case defn of
                [] \<Rightarrow> Inl IndexError
              | c # cs \<Rightarrow>
                  if c \<noteq> CHR ''/'' then Inl (ParseError ''Regex definitions must begin with /'')
                  else
                    (case regex_loop cs rname [] 0 ps1 of
                       Inl e \<Rightarrow> Inl e
                     | Inr (res, rest, ps2) \<Rightarrow> Inr (rname, rest, set_kind rname (RegexSymbol res) ps2))))"

subsection \<open>\<^verbatim>\<open>_Symbol._parse\<close> and \<^verbatim>\<open>FuncSymbol.parse\<close>\<close>

text \<open>
  \<^verbatim>\<open>_RE_DEFN\<close>, the pattern of a token of a definition:
  \<^verbatim>\<open>^((?P<quote>["'])|(?P<hexstr>x["'])|(?P<regex>/)|(?P<implconcat>\()|(?P<infunc>[,)])\<close>
  \<^verbatim>\<open>|(?P<comment>\#).*|(?P<func>\w+)\(|(?P<maybe>\?)\<close>
  \<^verbatim>\<open>|(?P<repeat>[{<]\s*(?P<a>\d+|\*)\s*(,\s*(?P<b>\d+|\*)\s*)?[}>])\<close>
  \<^verbatim>\<open>|@(?P<refprefix>[\w-]+\.)?(?P<ref>[\w:-]+)|(?P<symprefix>[\w-]+\.)?(?P<sym>[\w:-]+)|(?P<ws>\s+))\<close>
\<close>

definition RE_DEFN :: regex where
  "RE_DEFN =
     Or (Grp ''quote'' (Cls [Chars [CHR 0x22, CHR 0x27]]))
    (Or (Grp ''hexstr'' (Cat (Lit ''x'') (Cls [Chars [CHR 0x22, CHR 0x27]])))
    (Or (Grp ''regex'' (Lit ''/''))
    (Or (Grp ''implconcat'' (Lit ''(''))
    (Or (Grp ''infunc'' (Cls [Chars '',)'']))
    (Or (Cat (Grp ''comment'' (Lit ''#'')) (Star (Cls [Any])))
    (Or (Cat (Grp ''func'' (Plus_re (Cls [Word]))) (Lit ''(''))
    (Or (Grp ''maybe'' (Lit ''?''))
    (Or (Grp ''repeat''
           (Cat (Cls [Chars ''{<''])
             (Cat (Star (Cls [Space]))
               (Cat (Grp ''a'' (Or (Plus_re (Cls [Digit])) (Lit ''*'')))
                 (Cat (Star (Cls [Space]))
                   (Cat (Opt (Cat (Lit '','')
                               (Cat (Star (Cls [Space]))
                                 (Cat (Grp ''b'' (Or (Plus_re (Cls [Digit])) (Lit ''*'')))
                                      (Star (Cls [Space]))))))
                        (Cls [Chars ''}>''])))))))
    (Or (Cat (Lit ''@'')
          (Cat (Opt (Grp ''refprefix'' (Cat (Plus_re (Cls [Word, Chars ''-''])) (Lit ''.''))))
               (Grp ''ref'' (Plus_re (Cls [Word, Chars '':-''])))))
    (Or (Cat (Opt (Grp ''symprefix'' (Cat (Plus_re (Cls [Word, Chars ''-''])) (Lit ''.''))))
             (Grp ''sym'' (Plus_re (Cls [Word, Chars '':-'']))))
        (Grp ''ws'' (Plus_re (Cls [Space])))))))))))))"

text \<open>
  \<^verbatim>\<open>RefSymbol.__init__\<close>: the reference is entered under \<^verbatim>\<open>@\<close> and its target's
  name, the target gets an \<^verbatim>\<open>_AbstractSymbol\<close> when it has no entry, and the target
  is added to the tracked set.
\<close>

definition RefSymbol_init :: "string \<Rightarrow> parse_state \<Rightarrow> error + (string \<times> parse_state)" where
  "RefSymbol_init ref ps =
     (case Symbol_init (''@'' @ ref) None (RefSymbol ref) False ps of
        Inl e \<Rightarrow> Inl e
      | Inr ps1 \<Rightarrow>
          (case (case map_of (ps_symtab ps1) ref of
                   Some sy \<Rightarrow> Inr ps1
                 | None \<Rightarrow> Symbol_init ref None AbstractSymbol False ps1) of
             Inl e \<Rightarrow> Inl e
           | Inr ps2 \<Rightarrow>
               Inr (''@'' @ ref, ps2\<lparr>ps_tracked := List.insert ref (ps_tracked ps2)\<rparr>)))"

text \<open>
  The branch of \<^verbatim>\<open>_parse\<close> for a symbol name: the entry of that name, or a new
  \<^verbatim>\<open>_AbstractSymbol\<close>.
\<close>

definition symbol_use :: "string \<Rightarrow> parse_state \<Rightarrow> error + (string \<times> parse_state)" where
  "symbol_use sym_name ps =
     (case map_of (ps_symtab ps) sym_name of
        Some sy \<Rightarrow> Inr (name sy, ps)
      | None \<Rightarrow>
          (case Symbol_init sym_name None AbstractSymbol False ps of
             Inl e \<Rightarrow> Inl e
           | Inr ps' \<Rightarrow> Inr (sym_name, ps')))"

text \<open>
  The bound of a repeat token: \<^verbatim>\<open>"*" if match.group("a") == "*" else int(match.group("a"))\<close>.
\<close>

definition parse_bound :: "string \<Rightarrow> bound" where
  "parse_bound s = (if s = ''*'' then BStar else BInt (nat_of_digits s))"

definition is_infix :: "string \<Rightarrow> string \<Rightarrow> bool" where
  "is_infix x s = (\<exists>i \<in> set [0 ..< Suc (length s)]. take (length x) (drop i s) = x)"

definition children_of :: "kind \<Rightarrow> string list" where
  "children_of k =
     (case k of
        ConcatSymbol cs \<Rightarrow> cs
      | RegexSymbol cs \<Rightarrow> cs
      | RepeatSymbol mn mx cs \<Rightarrow> cs
      | RepeatSampleSymbol mn mx cs i \<Rightarrow> cs
      | _ \<Rightarrow> [])"

text \<open>
  The branch of \<^verbatim>\<open>_parse\<close> for \<^verbatim>\<open>?\<close> and for a repeat token, which \<open>tok\<close> is;
  \<open>res\<close> is the list of names so far. The new symbol takes the last name of the list,
  or the children of the implicit concatenation of that name, whose entry is deleted.
\<close>

definition repeat_token ::
  "string \<Rightarrow> string \<Rightarrow> groups \<Rightarrow> string list \<Rightarrow> parse_state \<Rightarrow> error + (string list \<times> parse_state)" where
  "repeat_token defn tok g res ps =
     (if res = [] then Inl (ParseError (''Unexpected token in definition: '' @ defn))
      else if \<not> group_true g ''maybe''
              \<and> (if hd tok = CHR ''{'' then CHR ''}'' else CHR ''>'') \<noteq> last tok
      then Inl (ParseError (''Repeat symbol mismatch at: '' @ defn))
      else
        (let is_sample = (\<not> group_true g ''maybe'' \<and> hd tok = CHR ''<'');
             mn = (if group_true g ''maybe'' then BInt 0 else parse_bound (the (group g ''a'')));
             mx = (if group_true g ''maybe'' then BInt 1
                   else if group_true g ''b'' then parse_bound (the (group g ''b'')) else mn);
             parts = last res;
             nm = line_tag ''repeat'' ps (fst (implicit ps))
         in case RepeatSymbol_init is_sample nm mn mx False [] (snd (implicit ps)) of
              Inl e \<Rightarrow> Inl e
            | Inr (rname, ps1) \<Rightarrow>
                (case map_of (ps_symtab ps1) parts of
                   None \<Rightarrow> Inl KeyError
                 | Some part \<Rightarrow>
                     if is_infix ''[concat'' (name part)
                     then Inr (butlast res @ [rname],
                               (set_kind rname
                                  (if is_sample then RepeatSampleSymbol mn mx (children_of (kind part)) None
                                   else RepeatSymbol mn mx (children_of (kind part))) ps1)
                               \<lparr>ps_symtab := dict_del parts
                                   (ps_symtab (set_kind rname
                                      (if is_sample
                                       then RepeatSampleSymbol mn mx (children_of (kind part)) None
                                       else RepeatSymbol mn mx (children_of (kind part))) ps1))\<rparr>)
                     else Inr (butlast res @ [rname],
                               set_kind rname
                                 (if is_sample then RepeatSampleSymbol mn mx [parts] None
                                  else RepeatSymbol mn mx [parts]) ps1))))"

text \<open>
  \<^verbatim>\<open>float(s)\<close> for the text of a bare name: an optional sign, then \<^verbatim>\<open>inf\<close>,
  \<^verbatim>\<open>infinity\<close> or \<^verbatim>\<open>nan\<close> in any case, or decimal digits with an optional
  fraction and an optional exponent. The value is the rational number written;
  rounding and overflow are not modelled.
\<close>

definition lower :: "string \<Rightarrow> string" where
  "lower s =
     map (\<lambda>c. if c \<in> set ''ABCDEFGHIJKLMNOPQRSTUVWXYZ'' then char_of (of_char c + (32::nat)) else c) s"

fun split_at :: "(char \<Rightarrow> bool) \<Rightarrow> string \<Rightarrow> (string \<times> string) option" where
  "split_at P [] = None"
| "split_at P (c # cs) =
     (if P c then Some ([], cs)
      else case split_at P cs of None \<Rightarrow> None | Some (a, b) \<Rightarrow> Some (c # a, b))"

definition digits_value :: "string \<Rightarrow> (nat \<times> nat) option" where
  "digits_value s =
     (case int_digits 0 False s of
        None \<Rightarrow> None
      | Some n \<Rightarrow> Some (n, length (filter is_digit s)))"

definition mantissa :: "string \<Rightarrow> rat option" where
  "mantissa s =
     (case split_at (\<lambda>c. c = CHR ''.'') s of
        None \<Rightarrow> (case digits_value s of None \<Rightarrow> None | Some (n, k) \<Rightarrow> Some (of_nat n))
      | Some (ip, fp) \<Rightarrow>
          if ip = [] \<and> fp = [] then None
          else
            (case (if ip = [] then Some (0, 0) else digits_value ip,
                   if fp = [] then Some (0, 0) else digits_value fp) of
               (Some (i, ki), Some (f, kf)) \<Rightarrow> Some (of_nat i + of_nat f / 10 ^ kf)
             | _ \<Rightarrow> None))"

definition signed_digits :: "string \<Rightarrow> int option" where
  "signed_digits s =
     (case s of
        [] \<Rightarrow> None
      | c # cs \<Rightarrow>
          if c = CHR ''-'' then map_option (\<lambda>p. - int (fst p)) (digits_value cs)
          else if c = CHR ''+'' then map_option (\<lambda>p. int (fst p)) (digits_value cs)
          else map_option (\<lambda>p. int (fst p)) (digits_value s))"

definition unsigned_float :: "string \<Rightarrow> num option" where
  "unsigned_float s =
     (if lower s = ''inf'' \<or> lower s = ''infinity'' then Some (FloatInf False)
      else if lower s = ''nan'' then Some FloatNaN
      else
        (case split_at (\<lambda>c. c = CHR ''e'' \<or> c = CHR ''E'') s of
           None \<Rightarrow> map_option FloatNum (mantissa s)
         | Some (m, e) \<Rightarrow>
             (case (mantissa m, signed_digits e) of
                (Some q, Some x) \<Rightarrow>
                  Some (FloatNum (if 0 \<le> x then q * 10 ^ nat x else q / 10 ^ nat (- x)))
              | _ \<Rightarrow> None)))"

fun negate :: "num \<Rightarrow> num" where
  "negate (FloatNum q) = FloatNum (- q)"
| "negate (IntNum i) = IntNum (- i)"
| "negate (FloatInf neg) = FloatInf (\<not> neg)"
| "negate FloatNaN = FloatNaN"

definition float_of_str :: "string \<Rightarrow> num option" where
  "float_of_str s =
     (case strip s of
        [] \<Rightarrow> None
      | c # cs \<Rightarrow>
          if c = CHR ''-'' then map_option negate (unsigned_float cs)
          else if c = CHR ''+'' then unsigned_float cs
          else unsigned_float (c # cs))"

text \<open>
  The numeric test of \<^verbatim>\<open>FuncSymbol.parse\<close> on the text of a bare name:
  \<^verbatim>\<open>int\<close> first, then \<^verbatim>\<open>float\<close>.
\<close>

definition numeric_literal :: "string \<Rightarrow> num option" where
  "numeric_literal s =
     (case int_of_str s of Inr i \<Rightarrow> Some (IntNum i) | Inl e \<Rightarrow> float_of_str s)"

definition is_abstract :: "kind \<Rightarrow> bool" where
  "is_abstract k = (case k of AbstractSymbol \<Rightarrow> True | _ \<Rightarrow> False)"

text \<open>
  What \<^verbatim>\<open>FuncSymbol.parse\<close> does with a parsed argument \<open>arg\<close>, the list of names of
  one body: a single undefined name that reads as a number is that number, and its
  placeholder is deleted; anything else is a new concatenation of the names, called
  after the function symbol \<open>fname\<close> and the number of arguments so far.
\<close>

definition func_arg_of ::
  "string \<Rightarrow> string list \<Rightarrow> func_arg list \<Rightarrow> parse_state \<Rightarrow> error + (func_arg list \<times> parse_state)" where
  "func_arg_of fname arg fargs ps =
     (case (case arg of
              [a] \<Rightarrow>
                (case map_of (ps_symtab ps) a of
                   None \<Rightarrow> Inl KeyError
                 | Some sy \<Rightarrow>
                     if is_abstract (kind sy) then
                       (case split_dot a of
                          None \<Rightarrow> Inl IndexError
                        | Some (p, arg0) \<Rightarrow> Inr (numeric_literal arg0))
                     else Inr None)
            | _ \<Rightarrow> Inr None) of
        Inl e \<Rightarrow> Inl e
      | Inr (Some v) \<Rightarrow> Inr (fargs @ [NumArg v], ps\<lparr>ps_symtab := dict_del (hd arg) (ps_symtab ps)\<rparr>)
      | Inr None \<Rightarrow>
          (case ConcatSymbol_init (butlast fname @ ''.'' @ str_int (int (length fargs)) @ '']'')
                  True arg ps of
             Inl e \<Rightarrow> Inl e
           | Inr (nm, ps') \<Rightarrow> Inr (fargs @ [SymArg nm], ps')))"

text \<open>
  \<^verbatim>\<open>_Symbol._parse(defn, pstate, in_func, in_concat)\<close>, its loop with the list
  \<open>res\<close> of names so far, and the argument loop of \<^verbatim>\<open>FuncSymbol.parse\<close>, which
  calls it for every argument, for the function symbol \<open>fname\<close> with the arguments
  \<open>fargs\<close> so far. Both return the rest of the text with their result.
\<close>

function (sequential) parse_tokens ::
      "string \<Rightarrow> bool \<Rightarrow> bool \<Rightarrow> string list \<Rightarrow> parse_state
         \<Rightarrow> error + (string list \<times> string \<times> parse_state)"
  and func_parse_args ::
      "string \<Rightarrow> string \<Rightarrow> func_arg list \<Rightarrow> parse_state
         \<Rightarrow> error + (func_arg list \<times> string \<times> parse_state)"
where
  "parse_tokens defn in_func in_concat res ps =
     (if defn = [] then Inr (res, defn, ps)
      else
        (case re_match_start RE_DEFN defn of
           None \<Rightarrow> Inl (ParseError (''Failed to parse definition at: '' @ defn))
         | Some (rest, g) \<Rightarrow>
             if group_true g ''comment'' then Inr (res, [], ps)
             else if group_true g ''infunc'' then
               (if in_func \<or> (in_concat \<and> group g ''infunc'' = Some '')'')
                then Inr (res, defn, ps)
                else Inl (ParseError (''Unexpected token in definition: '' @ defn)))
             else if \<not> length rest < length defn then Inl Stuck
             else if group g ''ws'' \<noteq> None then parse_tokens rest in_func in_concat res ps
             else if group_true g ''quote'' then
               (case TextSymbol_parse defn False ps of
                  Inl e \<Rightarrow> Inl e
                | Inr (nm, v, rest', ps') \<Rightarrow>
                    if \<not> length rest' < length defn then Inl Stuck
                    else parse_tokens rest' in_func in_concat (res @ [nm]) ps')
             else if group_true g ''hexstr'' then
               (case BinSymbol_parse defn ps of
                  Inl e \<Rightarrow> Inl e
                | Inr (nm, rest', ps') \<Rightarrow>
                    if \<not> length rest' < length defn then Inl Stuck
                    else parse_tokens rest' in_func in_concat (res @ [nm]) ps')
             else if group_true g ''regex'' then
               (case RegexSymbol_parse defn ps of
                  Inl e \<Rightarrow> Inl e
                | Inr (nm, rest', ps') \<Rightarrow>
                    if \<not> length rest' < length defn then Inl Stuck
                    else parse_tokens rest' in_func in_concat (res @ [nm]) ps')
             else if group_true g ''func'' then
               (if the (group g ''func'') = ''import''
                then Inl (ParseError '''import' is a reserved function name'')
                else
                  (case Symbol_init
                          (ps_prefix ps @ ''.'' @ line_tag (the (group g ''func'')) ps (fst (implicit ps)))
                          None (FuncSymbol (the (group g ''func'')) []) False (snd (implicit ps)) of
                     Inl e \<Rightarrow> Inl e
                   | Inr ps1 \<Rightarrow>
                       (case func_parse_args rest
                               (ps_prefix ps @ ''.'' @ line_tag (the (group g ''func'')) ps (fst (implicit ps)))
                               [] ps1 of
                          Inl e \<Rightarrow> Inl e
                        | Inr (fargs, rest', ps2) \<Rightarrow>
                            if \<not> length rest' < length defn then Inl Stuck
                            else parse_tokens rest' in_func in_concat
                                   (res @ [ps_prefix ps @ ''.'' @ line_tag (the (group g ''func'')) ps (fst (implicit ps))])
                                   (set_kind
                                      (ps_prefix ps @ ''.'' @ line_tag (the (group g ''func'')) ps (fst (implicit ps)))
                                      (FuncSymbol (the (group g ''func'')) fargs) ps2))))
             else if group_true g ''ref'' then
               (case get_prefixed (group g ''refprefix'') (the (group g ''ref'')) ps of
                  Inl e \<Rightarrow> Inl e
                | Inr (ref, ps1) \<Rightarrow>
                    (case RefSymbol_init ref ps1 of
                       Inl e \<Rightarrow> Inl e
                     | Inr (nm, ps2) \<Rightarrow> parse_tokens rest in_func in_concat (res @ [nm]) ps2))
             else if group_true g ''sym'' then
               (case get_prefixed (group g ''symprefix'') (the (group g ''sym'')) ps of
                  Inl e \<Rightarrow> Inl e
                | Inr (sym_name, ps1) \<Rightarrow>
                    (case symbol_use sym_name ps1 of
                       Inl e \<Rightarrow> Inl e
                     | Inr (nm, ps2) \<Rightarrow> parse_tokens rest in_func in_concat (res @ [nm]) ps2))
             else if group_true g ''implconcat'' then
               (case parse_tokens rest False True [] ps of
                  Inl e \<Rightarrow> Inl e
                | Inr (parts, rest', ps1) \<Rightarrow>
                    if rest' = [] \<or> hd rest' \<noteq> CHR '')'' then Inl (ParseError (''Expecting ) at: '' @ rest'))
                    else if \<not> length (tl rest') < length defn then Inl Stuck
                    else
                      (case ConcatSymbol_init (line_tag ''concat'' ps1 (fst (implicit ps1))) False parts
                              (snd (implicit ps1)) of
                         Inl e \<Rightarrow> Inl e
                       | Inr (nm, ps2) \<Rightarrow> parse_tokens (tl rest') in_func in_concat (res @ [nm]) ps2))
             else if group_true g ''maybe'' \<or> group_true g ''repeat'' then
               (case repeat_token defn (take (length defn - length rest) defn) g res ps of
                  Inl e \<Rightarrow> Inl e
                | Inr (res', ps') \<Rightarrow> parse_tokens rest in_func in_concat res' ps')
             else Inl Stuck))"
| "func_parse_args defn fname fargs ps =
     (case parse_tokens defn True False [] ps of
        Inl e \<Rightarrow> Inl e
      | Inr (arg, rest, ps1) \<Rightarrow>
          if rest = [] then Inl IndexError
          else if hd rest \<noteq> CHR '','' \<and> hd rest \<noteq> CHR '')''
          then Inl (ParseError (''Expected , or ) parsing function args at: '' @ rest))
          else if \<not> length (tl rest) < length defn then Inl Stuck
          else if arg \<noteq> [] \<or> hd rest \<noteq> CHR '')'' then
            (case func_arg_of fname arg fargs ps1 of
               Inl e \<Rightarrow> Inl e
             | Inr (fargs', ps2) \<Rightarrow>
                 if hd rest = CHR '')'' then Inr (fargs', tl rest, ps2)
                 else func_parse_args (tl rest) fname fargs' ps2)
          else Inr (fargs, tl rest, ps1))"
  by pat_completeness auto

termination
  by (relation "measures
        [\<lambda>x. case x of Inl (defn, a, b, c, d) \<Rightarrow> length defn | Inr (defn, a, b, c) \<Rightarrow> length defn,
         \<lambda>x. case x of Inl a \<Rightarrow> 0 | Inr b \<Rightarrow> 1]")
     auto

text \<open>
  \<^verbatim>\<open>_Symbol.parse\<close>: a whole definition, with nothing left over.
\<close>

definition Symbol_parse :: "string \<Rightarrow> parse_state \<Rightarrow> error + (string list \<times> parse_state)" where
  "Symbol_parse defn ps =
     (case parse_tokens defn False False [] ps of
        Inl e \<Rightarrow> Inl e
      | Inr (res, remain, ps') \<Rightarrow>
          if remain \<noteq> [] then Inl (ParseError (''Unexpected token in definition: '' @ remain))
          else Inr (res, ps'))"

subsection \<open>\<^verbatim>\<open>Grammar.parse\<close>\<close>

text \<open>
  \<^verbatim>\<open>_RE_LINE\<close>, the pattern of a line:
  \<^verbatim>\<open>^((?P<broken>.*)\\|\s*(?P<comment>\#).*|(?P<nothing>\s*)\<close>
  \<^verbatim>\<open>|(?P<name>[\w:-]+)(?P<type>((?P<weight>\s+\d+\s+)|\s*\+\s*|\s+import\(\s*)|\s+)(?P<def>.+)\<close>
  \<^verbatim>\<open>|\s+(\+|(?P<contweight>\d+))\s*(?P<cont>.+))$\<close>
\<close>

definition RE_LINE :: regex where
  "RE_LINE =
     Cat
       (Or (Cat (Grp ''broken'' (Star (Cls [Any]))) (Cls [Chars [CHR 0x5C]]))
       (Or (Cat (Star (Cls [Space])) (Cat (Grp ''comment'' (Lit ''#'')) (Star (Cls [Any]))))
       (Or (Grp ''nothing'' (Star (Cls [Space])))
       (Or (Cat (Grp ''name'' (Plus_re (Cls [Word, Chars '':-''])))
             (Cat (Grp ''type''
                    (Or (Or (Grp ''weight''
                              (Cat (Plus_re (Cls [Space]))
                                (Cat (Plus_re (Cls [Digit])) (Plus_re (Cls [Space])))))
                        (Or (Cat (Star (Cls [Space])) (Cat (Lit ''+'') (Star (Cls [Space]))))
                            (Cat (Plus_re (Cls [Space]))
                              (Cat (Lit ''import('') (Star (Cls [Space]))))))
                        (Plus_re (Cls [Space]))))
                  (Grp ''def'' (Plus_re (Cls [Any])))))
           (Cat (Plus_re (Cls [Space]))
             (Cat (Or (Lit ''+'') (Grp ''contweight'' (Plus_re (Cls [Digit]))))
               (Cat (Star (Cls [Space])) (Grp ''cont'' (Plus_re (Cls [Any]))))))))))
       Eol"

text \<open>
  The lines of the text as iterating over the \<^verbatim>\<open>StringIO\<close> gives them: each with
  its newline, the last one without when the text does not end in one.
\<close>

fun lines_of :: "string \<Rightarrow> string \<Rightarrow> string list" where
  "lines_of acc [] = (if acc = [] then [] else [acc])"
| "lines_of acc (c # cs) =
     (if c = CHR 0x0A then (acc @ [c]) # lines_of [] cs else lines_of (acc @ [c]) cs)"

definition lstrip :: "string \<Rightarrow> string" where
  "lstrip s = dropWhile is_space s"

definition rstrip :: "string \<Rightarrow> string" where
  "rstrip s = rev (dropWhile is_space (rev s))"

definition starts_with :: "string \<Rightarrow> string \<Rightarrow> bool" where
  "starts_with x s = (take (length x) s = x)"

text \<open>
  \<^verbatim>\<open>ChoiceSymbol.append\<close> on the object named \<open>nm\<close> in the symbol table: the
  alternative and its weight go to the \<^verbatim>\<open>_WeightedChoice\<close>, and
  \<^verbatim>\<open>_choices_terminate\<close> gets a \<^verbatim>\<open>None\<close>.
\<close>

definition choice_append ::
  "string \<Rightarrow> string list \<Rightarrow> weight \<Rightarrow> parse_state \<Rightarrow> error + parse_state" where
  "choice_append nm alt w ps =
     (case map_of (ps_symtab ps) nm of
        None \<Rightarrow> Inl Stuck
      | Some sy \<Rightarrow>
          (case kind sy of
             ChoiceSymbol wc ct \<Rightarrow> Inr (set_kind nm (ChoiceSymbol (wc_append wc alt w) (ct @ [None])) ps)
           | _ \<Rightarrow> Inl Stuck))"

definition line_weight :: "groups \<Rightarrow> string \<Rightarrow> weight" where
  "line_weight g n =
     (if group_true g n then Weight (of_nat (nat_of_digits (strip (the (group g n))))) else Plus)"

text \<open>
  A line that opens a choice: \<^verbatim>\<open>sym = ChoiceSymbol(sym_name, pstate)\<close> and the
  \<^verbatim>\<open>append\<close> of the parsed alternative.
\<close>

definition choice_line ::
  "string \<Rightarrow> string \<Rightarrow> weight \<Rightarrow> parse_state \<Rightarrow> error + (string \<times> parse_state)" where
  "choice_line sym_name sym_def w ps =
     (case Symbol_init (ps_prefix ps @ ''.'' @ sym_name) None
             (ChoiceSymbol WeightedChoice_init []) False ps of
        Inl e \<Rightarrow> Inl e
      | Inr ps1 \<Rightarrow>
          (case Symbol_parse sym_def ps1 of
             Inl e \<Rightarrow> Inl e
           | Inr (alt, ps2) \<Rightarrow>
               (case choice_append (ps_prefix ps @ ''.'' @ sym_name) alt w ps2 of
                  Inl e \<Rightarrow> Inl e
                | Inr ps3 \<Rightarrow> Inr (ps_prefix ps @ ''.'' @ sym_name, ps3))))"

text \<open>
  A line that imports a grammar. The model has no files beside the text of the grammar,
  so each \<^verbatim>\<open>open\<close> of the loop over the import paths fails and the \<^verbatim>\<open>else\<close> branch
  of the loop raises the IntegrityError; the checks before the loop are those of the
  code.
\<close>

definition import_line :: "string \<Rightarrow> string \<Rightarrow> parse_state \<Rightarrow> error + parse_state" where
  "import_line sym_name sym_def ps =
     (case map_of (ps_symtab ps) (ps_prefix ps @ ''.'' @ sym_name) of
        Some old \<Rightarrow> Inl (redefinition sym_name (line_no old))
      | None \<Rightarrow>
          (case TextSymbol_parse sym_def True ps of
             Inl e \<Rightarrow> Inl e
           | Inr (nm, v, rest, ps1) \<Rightarrow>
               if \<not> starts_with '')'' (strip rest)
               then Inl (ParseError (''Expected ')' parsing import at: '' @ strip rest))
               else if lstrip (tl (strip rest)) \<noteq> []
               then Inl (ParseError (''Unexpected input following import: '' @ lstrip (tl (strip rest))))
               else Inl (IntegrityError (''Could not find imported grammar: '' @ v))))"

text \<open>\<^verbatim>\<open>ConcatSymbol.parse\<close>: the line of a symbol definition.\<close>

definition ConcatSymbol_parse :: "string \<Rightarrow> string \<Rightarrow> parse_state \<Rightarrow> error + parse_state" where
  "ConcatSymbol_parse sym_name defn ps =
     (case ConcatSymbol_init sym_name False [] ps of
        Inl e \<Rightarrow> Inl e
      | Inr (nm, ps1) \<Rightarrow>
          (case Symbol_parse defn ps1 of
             Inl e \<Rightarrow> Inl e
           | Inr (res, ps2) \<Rightarrow> Inr (set_kind nm (ConcatSymbol res) ps2)))"

text \<open>
  The body of the loop over the lines, for the joined text \<open>ljoin @ line\<close>. \<open>cur\<close>
  is the name of the object in the variable \<^verbatim>\<open>sym\<close> when that is a
  \<^verbatim>\<open>ChoiceSymbol\<close>. The result is the new \<^verbatim>\<open>ljoin\<close>, the new \<open>cur\<close> and the
  state.
\<close>

definition parse_line ::
  "string \<Rightarrow> string \<Rightarrow> string option \<Rightarrow> parse_state
     \<Rightarrow> error + (string \<times> string option \<times> parse_state)" where
  "parse_line ljoin line cur ps =
     (case re_match_start RE_LINE (ljoin @ line) of
        None \<Rightarrow> Inl (ParseError (''Failed to parse definition at: '' @ ljoin @ rstrip line))
      | Some (rest, g) \<Rightarrow>
          if group g ''broken'' \<noteq> None then Inr (the (group g ''broken''), cur, ps)
          else if group_true g ''comment'' \<or> group g ''nothing'' \<noteq> None then Inr ([], cur, ps)
          else if group_true g ''name'' then
            (if starts_with ''+'' (lstrip (the (group g ''type''))) \<or> group_true g ''weight'' then
               (case choice_line (the (group g ''name'')) (the (group g ''def''))
                       (line_weight g ''weight'') ps of
                  Inl e \<Rightarrow> Inl e
                | Inr (nm, ps') \<Rightarrow> Inr ([], Some nm, ps'))
             else if starts_with ''import('' (lstrip (the (group g ''type''))) then
               (case import_line (the (group g ''name'')) (the (group g ''def'')) ps of
                  Inl e \<Rightarrow> Inl e
                | Inr ps' \<Rightarrow> Inr ([], None, ps'))
             else
               (case ConcatSymbol_parse (the (group g ''name'')) (the (group g ''def'')) ps of
                  Inl e \<Rightarrow> Inl e
                | Inr ps' \<Rightarrow> Inr ([], None, ps')))
          else
            (case cur of
               None \<Rightarrow> Inl (ParseError ''Unexpected continuation of choice symbol'')
             | Some nm \<Rightarrow>
                 (case Symbol_parse (the (group g ''cont'')) ps of
                    Inl e \<Rightarrow> Inl e
                  | Inr (alt, ps1) \<Rightarrow>
                      (case choice_append nm alt (line_weight g ''contweight'') ps1 of
                         Inl e \<Rightarrow> Inl e
                       | Inr ps2 \<Rightarrow> Inr ([], Some nm, ps2)))))"

fun parse_lines ::
  "string list \<Rightarrow> string \<Rightarrow> string option \<Rightarrow> parse_state \<Rightarrow> error + parse_state" where
  "parse_lines [] ljoin cur ps = Inr ps"
| "parse_lines (line # rest) ljoin cur ps =
     (case parse_line ljoin line cur (ps\<lparr>ps_line_no := ps_line_no ps + 1, ps_n_implicit := - 1\<rparr>) of
        Inl e \<Rightarrow> Inl e
      | Inr (ljoin', cur', ps') \<Rightarrow> parse_lines rest ljoin' cur' ps')"

text \<open>
  \<^verbatim>\<open>Grammar.parse\<close> of the top-level text. \<open>grammar_hash\<close> stands for the first six
  digits of the SHA-512 of the text, which the model does not compute; it is the prefix
  of every name until \<^verbatim>\<open>normalize\<close>. At the end \<^verbatim>\<open>_ParseState.sanity_check\<close> raises
  for an import that no name used. The result is the symbol table and the tracked set.
\<close>

definition Grammar_parse ::
  "string \<Rightarrow> string \<Rightarrow> error + ((string \<times> symbol) list \<times> string list)" where
  "Grammar_parse grammar_hash text =
     (case parse_lines (lines_of [] text) [] None
             \<lparr>ps_prefix = grammar_hash, ps_imports = [], ps_imports_used = [], ps_line_no = 0,
              ps_n_implicit = - 1, ps_name = None, ps_symtab = [], ps_tracked = []\<rparr> of
        Inl e \<Rightarrow> Inl e
      | Inr ps \<Rightarrow>
          if \<exists>n \<in> set (map fst (ps_imports ps)). n \<notin> set (ps_imports_used ps)
          then Inl (IntegrityError ''Unused import'')
          else Inr (ps_symtab ps, ps_tracked ps))"

section \<open>\<^verbatim>\<open>Grammar.normalize\<close>\<close>

text \<open>
  The local function \<^verbatim>\<open>get_prefixed\<close> of \<^verbatim>\<open>normalize\<close>: the prefix before the
  first dot of a name is replaced by the friendly prefix that \<open>imports\<close> has for it,
  an \<^verbatim>\<open>@\<close> in front is kept, and a name without a dot stays.
\<close>

definition reprefix :: "(string \<times> string) list \<Rightarrow> string \<Rightarrow> error + string" where
  "reprefix imports symname =
     (case split_dot symname of
        None \<Rightarrow> Inr symname
      | Some (p, nm) \<Rightarrow>
          (case map_of imports (if starts_with ''@'' p then tl p else p) of
             None \<Rightarrow>
               Inl (ParseError (''Failed to reassign '' @ symname @ '' to proper namespace after parsing''))
           | Some newprefix \<Rightarrow>
               Inr ((if starts_with ''@'' p then ''@'' else [])
                    @ newprefix @ (if newprefix \<noteq> [] then ''.'' else []) @ nm)))"

fun reprefix_list :: "(string \<times> string) list \<Rightarrow> string list \<Rightarrow> error + string list" where
  "reprefix_list imports [] = Inr []"
| "reprefix_list imports (x # xs) =
     (case reprefix imports x of
        Inl e \<Rightarrow> Inl e
      | Inr y \<Rightarrow> (case reprefix_list imports xs of Inl e \<Rightarrow> Inl e | Inr ys \<Rightarrow> Inr (y # ys)))"

fun reprefix_lists :: "(string \<times> string) list \<Rightarrow> string list list \<Rightarrow> error + string list list" where
  "reprefix_lists imports [] = Inr []"
| "reprefix_lists imports (x # xs) =
     (case reprefix_list imports x of
        Inl e \<Rightarrow> Inl e
      | Inr y \<Rightarrow> (case reprefix_lists imports xs of Inl e \<Rightarrow> Inl e | Inr ys \<Rightarrow> Inr (y # ys)))"

fun reprefix_args :: "(string \<times> string) list \<Rightarrow> func_arg list \<Rightarrow> error + func_arg list" where
  "reprefix_args imports [] = Inr []"
| "reprefix_args imports (NumArg v # xs) =
     (case reprefix_args imports xs of Inl e \<Rightarrow> Inl e | Inr ys \<Rightarrow> Inr (NumArg v # ys))"
| "reprefix_args imports (SymArg x # xs) =
     (case reprefix imports x of
        Inl e \<Rightarrow> Inl e
      | Inr y \<Rightarrow> (case reprefix_args imports xs of Inl e \<Rightarrow> Inl e | Inr ys \<Rightarrow> Inr (SymArg y # ys)))"

text \<open>The \<^verbatim>\<open>map\<close> method of each class.\<close>

definition map_kind :: "(string \<times> string) list \<Rightarrow> kind \<Rightarrow> error + kind" where
  "map_kind imports k =
     (case k of
        ChoiceSymbol wc ct \<Rightarrow>
          (case reprefix_lists imports (choice_values wc) of
             Inl e \<Rightarrow> Inl e
           | Inr vs \<Rightarrow> Inr (ChoiceSymbol (wc\<lparr>choice_values := vs\<rparr>) ct))
      | ConcatSymbol cs \<Rightarrow>
          (case reprefix_list imports cs of Inl e \<Rightarrow> Inl e | Inr cs' \<Rightarrow> Inr (ConcatSymbol cs'))
      | RegexSymbol cs \<Rightarrow>
          (case reprefix_list imports cs of Inl e \<Rightarrow> Inl e | Inr cs' \<Rightarrow> Inr (RegexSymbol cs'))
      | RepeatSymbol mn mx cs \<Rightarrow>
          (case reprefix_list imports cs of
             Inl e \<Rightarrow> Inl e
           | Inr cs' \<Rightarrow> Inr (RepeatSymbol mn mx cs'))
      | RepeatSampleSymbol mn mx cs idx \<Rightarrow>
          (case reprefix_list imports cs of
             Inl e \<Rightarrow> Inl e
           | Inr cs' \<Rightarrow> Inr (RepeatSampleSymbol mn mx cs' idx))
      | FuncSymbol fname args \<Rightarrow>
          (case reprefix_args imports args of
             Inl e \<Rightarrow> Inl e
           | Inr args' \<Rightarrow> Inr (FuncSymbol fname args'))
      | RefSymbol ref \<Rightarrow>
          (case reprefix imports ref of Inl e \<Rightarrow> Inl e | Inr ref' \<Rightarrow> Inr (RefSymbol ref'))
      | _ \<Rightarrow> Inr k)"

text \<open>
  The first loop of \<^verbatim>\<open>normalize\<close>, over the keys the table had when the loop
  began: the symbol gets its new name and moves to the new key, and its children are
  renamed.
\<close>

fun rename_all ::
  "(string \<times> string) list \<Rightarrow> string list \<Rightarrow> (string \<times> symbol) list
     \<Rightarrow> error + (string \<times> symbol) list" where
  "rename_all imports [] tab = Inr tab"
| "rename_all imports (oldname # rest) tab =
     (case map_of tab oldname of
        None \<Rightarrow> Inl KeyError
      | Some sy \<Rightarrow>
          if name sy \<noteq> oldname then Inl AssertionError
          else
            (case reprefix imports oldname of
               Inl e \<Rightarrow> Inl e
             | Inr newname \<Rightarrow>
                 (case map_kind imports (kind sy) of
                    Inl e \<Rightarrow> Inl e
                  | Inr k \<Rightarrow>
                      rename_all imports rest
                        (if oldname \<noteq> newname
                         then dict_del oldname (dict_set newname (sy\<lparr>name := newname, kind := k\<rparr>) tab)
                         else dict_set oldname (sy\<lparr>kind := k\<rparr>) tab))))"

text \<open>
  The recursion limit of the host: a call nested deeper raises a RecursionError. The
  methods \<^verbatim>\<open>normalize\<close> below call themselves, and \<open>d\<close> is the depth left to them.
\<close>

definition recursion_limit :: nat where
  "recursion_limit = 1000"

definition set_weight :: "nat \<Rightarrow> rat \<Rightarrow> kind \<Rightarrow> kind" where
  "set_weight i t k =
     (case k of
        ChoiceSymbol wc ct \<Rightarrow>
          ChoiceSymbol (wc\<lparr>weights := (weights wc)[i := Weight t], total := total wc + t\<rparr>) ct
      | _ \<Rightarrow> k)"

definition update_kind :: "string \<Rightarrow> (kind \<Rightarrow> kind) \<Rightarrow> (string \<times> symbol) list \<Rightarrow> (string \<times> symbol) list" where
  "update_kind key f tab = map (\<lambda>(k, sy). if k = key then (k, sy\<lparr>kind := f (kind sy)\<rparr>) else (k, sy)) tab"

text \<open>
  \<^verbatim>\<open>ChoiceSymbol.normalize\<close> for the object under \<open>key\<close>: the loop over the indices
  \<open>idxs\<close> of its alternatives. An alternative of weight \<^verbatim>\<open>'+'\<close> must be a single
  \<^verbatim>\<open>ChoiceSymbol\<close>, which is normalized first when it has such a weight itself, and
  whose total becomes the weight and is added to the total.
\<close>

function choice_normalize ::
  "nat \<Rightarrow> string \<Rightarrow> nat list \<Rightarrow> (string \<times> symbol) list \<Rightarrow> error + (string \<times> symbol) list" where
  "choice_normalize d key [] tab = Inr tab"
| "choice_normalize d key (i # idxs) tab =
     (case map_of tab key of
        None \<Rightarrow> Inl KeyError
      | Some sy \<Rightarrow>
          (case kind sy of
             ChoiceSymbol wc ct \<Rightarrow>
               if weights wc ! i \<noteq> Plus then choice_normalize d key idxs tab
               else
                 (case choice_values wc ! i of
                    [v] \<Rightarrow>
                      (case map_of tab v of
                         None \<Rightarrow> Inl KeyError
                       | Some child \<Rightarrow>
                           (case kind child of
                              ChoiceSymbol cwc cct \<Rightarrow>
                                (case (if Plus \<in> set (weights cwc) then
                                         (if d = 0 then Inl RecursionError
                                          else choice_normalize (d - 1) v
                                                 [0 ..< min (length (choice_values cwc)) (length (weights cwc))]
                                                 tab)
                                       else Inr tab) of
                                   Inl e \<Rightarrow> Inl e
                                 | Inr tab1 \<Rightarrow>
                                     (case map_of tab1 v of
                                        None \<Rightarrow> Inl KeyError
                                      | Some child1 \<Rightarrow>
                                          (case kind child1 of
                                             ChoiceSymbol cwc1 cct1 \<Rightarrow>
                                               choice_normalize d key idxs
                                                 (update_kind key (set_weight i (total cwc1)) tab1)
                                           | _ \<Rightarrow> Inl AttributeError)))
                            | _ \<Rightarrow>
                                Inl (IntegrityError
                                       (''Invalid use of '+' on non-ChoiceSymbol in '' @ name sy))))
                  | _ \<Rightarrow>
                      Inl (IntegrityError (''Invalid use of '+' on non-ChoiceSymbol in '' @ name sy)))
           | _ \<Rightarrow> Inl Stuck))"
  by pat_completeness auto

termination
  by (relation "measures [\<lambda>(d, key, idxs, tab). d, \<lambda>(d, key, idxs, tab). length idxs]") auto

text \<open>
  \<^verbatim>\<open>RepeatSampleSymbol.normalize\<close>: the loop over the children \<open>cs\<close> from index
  \<open>i\<close> on, with the number of choices and the index of the last one.
\<close>

fun sample_children ::
  "string \<Rightarrow> (string \<times> symbol) list \<Rightarrow> string list \<Rightarrow> nat \<Rightarrow> nat \<Rightarrow> nat option
     \<Rightarrow> error + (nat \<times> nat option)" where
  "sample_children nm tab [] i num idx = Inr (num, idx)"
| "sample_children nm tab (c # cs) i num idx =
     (case map_of tab c of
        None \<Rightarrow> Inl KeyError
      | Some child \<Rightarrow>
          (case kind child of
             ChoiceSymbol wc ct \<Rightarrow> sample_children nm tab cs (Suc i) (Suc num) (Some i)
           | TextSymbol v \<Rightarrow> sample_children nm tab cs (Suc i) num idx
           | TextChoiceSymbol v \<Rightarrow> sample_children nm tab cs (Suc i) num idx
           | BinSymbol v \<Rightarrow> sample_children nm tab cs (Suc i) num idx
           | _ \<Rightarrow>
               Inl (IntegrityError (''RepeatSampleSymbol '' @ nm @ '' has invalid child type: ('' @ c @ '')''))))"

definition RepeatSampleSymbol_normalize ::
  "string \<Rightarrow> symbol \<Rightarrow> (string \<times> symbol) list \<Rightarrow> error + (string \<times> symbol) list" where
  "RepeatSampleSymbol_normalize key sy tab =
     (case kind sy of
        RepeatSampleSymbol mn mx cs idx \<Rightarrow>
          (case sample_children (name sy) tab cs 0 0 idx of
             Inl e \<Rightarrow> Inl e
           | Inr (num, idx') \<Rightarrow>
               if num \<noteq> 1
               then Inl (IntegrityError
                           (''RepeatSampleSymbol '' @ name sy
                            @ '' must have one ChoiceSymbol in its children, got '' @ str_int (int num)))
               else Inr (update_kind key (\<lambda>k. RepeatSampleSymbol mn mx cs idx') tab))
      | _ \<Rightarrow> Inl Stuck)"

text \<open>
  The \<^verbatim>\<open>normalize\<close> method of the object under \<open>key\<close>, by its class. For a
  \<^verbatim>\<open>ConcatSymbol\<close> or \<^verbatim>\<open>RegexSymbol\<close> with one child whose name has a bracket, the
  child takes the name, the line and the key of the object, the key of the child is
  deleted, and the child is normalized in turn.
\<close>

function normalize_symbol ::
  "nat \<Rightarrow> string \<Rightarrow> (string \<times> symbol) list \<Rightarrow> error + (string \<times> symbol) list" where
  "normalize_symbol d key tab =
     (case map_of tab key of
        None \<Rightarrow> Inl KeyError
      | Some sy \<Rightarrow>
          if (case kind sy of ConcatSymbol cs \<Rightarrow> True | RegexSymbol cs \<Rightarrow> True | _ \<Rightarrow> False) then
            (case children_of (kind sy) of
               [c] \<Rightarrow>
                 if CHR ''['' \<in> set c then
                   (case map_of tab c of
                      None \<Rightarrow> Inl KeyError
                    | Some child \<Rightarrow>
                        if d = 0 then Inl RecursionError
                        else normalize_symbol (d - 1) (name sy)
                               (dict_del c
                                  (dict_set (name sy) (child\<lparr>name := name sy, line_no := line_no sy\<rparr>) tab)))
                 else Inr tab
             | _ \<Rightarrow> Inr tab)
          else
            (case kind sy of
               ChoiceSymbol wc ct \<Rightarrow>
                 choice_normalize d key [0 ..< min (length (choice_values wc)) (length (weights wc))] tab
             | RepeatSampleSymbol mn mx cs idx \<Rightarrow> RepeatSampleSymbol_normalize key sy tab
             | _ \<Rightarrow> Inr tab))"
  by pat_completeness auto

termination
  by (relation "measure (\<lambda>(d, key, tab). d)") auto

text \<open>
  The last loop of \<^verbatim>\<open>normalize\<close>: one pass over the keys the table had when the
  loop began; a key that is gone is skipped.
\<close>

fun normalize_all :: "string list \<Rightarrow> (string \<times> symbol) list \<Rightarrow> error + (string \<times> symbol) list" where
  "normalize_all [] tab = Inr tab"
| "normalize_all (nm # rest) tab =
     (case map_of tab nm of
        None \<Rightarrow> normalize_all rest tab
      | Some sy \<Rightarrow>
          (case normalize_symbol recursion_limit nm tab of
             Inl e \<Rightarrow> Inl e
           | Inr tab' \<Rightarrow> normalize_all rest tab'))"

definition normalize ::
  "(string \<times> string) list \<Rightarrow> (string \<times> symbol) list \<Rightarrow> string list
     \<Rightarrow> error + ((string \<times> symbol) list \<times> string list)" where
  "normalize imports tab trk =
     (case rename_all imports (map fst tab) tab of
        Inl e \<Rightarrow> Inl e
      | Inr tab1 \<Rightarrow>
          (case reprefix_list imports trk of
             Inl e \<Rightarrow> Inl e
           | Inr trk' \<Rightarrow>
               (case normalize_all (map fst tab1) tab1 of
                  Inl e \<Rightarrow> Inl e
                | Inr tab2 \<Rightarrow> Inr (tab2, remdups trk'))))"

section \<open>\<^verbatim>\<open>Grammar.sanity_check\<close>\<close>

subsection \<open>Definitions and functions in use\<close>

text \<open>
  The first loop: the \<^verbatim>\<open>sanity_check\<close> method of every symbol, which raises for an
  \<^verbatim>\<open>_AbstractSymbol\<close> and for a \<^verbatim>\<open>FuncSymbol\<close> whose function the grammar does not
  have, and the names of the functions in use.
\<close>

fun check_symbols ::
  "(string \<times> callable) list \<Rightarrow> symbol list \<Rightarrow> string list \<Rightarrow> error + string list" where
  "check_symbols fs [] used = Inr used"
| "check_symbols fs (sy # rest) used =
     (case kind sy of
        AbstractSymbol \<Rightarrow> Inl (IntegrityError (''Symbol '' @ name sy @ '' used but not defined''))
      | FuncSymbol fname args \<Rightarrow>
          if fname \<notin> set (map fst fs)
          then Inl (IntegrityError (''Function '' @ fname @ '' used but not defined''))
          else check_symbols fs rest (List.insert fname used)
      | _ \<Rightarrow> check_symbols fs rest used)"

subsection \<open>Reachability\<close>

text \<open>
  The \<^verbatim>\<open>while to_check\<close> loop. The sets are lists without repetitions, and
  \<^verbatim>\<open>to_check.pop()\<close> takes the head. After \<^verbatim>\<open>normalize\<close> every symbol stands under
  its own name; the loop of the model tests this before it goes on.
\<close>

function reachable ::
  "(string \<times> symbol) list \<Rightarrow> string list \<Rightarrow> string list \<Rightarrow> string list \<Rightarrow> error + string list" where
  "reachable tab [] checked used = Inr used"
| "reachable tab (s # to_check) checked used =
     (case map_of tab s of
        None \<Rightarrow> Inl KeyError
      | Some sy \<Rightarrow>
          if name sy \<noteq> s then Inl Stuck
          else reachable tab
                 (remdups (filter (\<lambda>c. c \<noteq> s) to_check
                           @ filter (\<lambda>c. c \<notin> set (List.insert s checked)) (children sy)))
                 (List.insert s checked)
                 (remdups (used @ children sy)))"
  by pat_completeness auto

lemma filter_remdups_append_le:
  assumes "\<forall>y \<in> set ys. \<not> P y"
  shows "length (filter P (remdups (xs @ ys))) \<le> length (filter P xs)"
proof -
  have "filter P ys = []" using assms by (simp add: filter_empty_conv)
  have "filter P (remdups (xs @ ys)) = remdups (filter P (xs @ ys))"
    by (simp only: remdups_filter)
  also have "\<dots> = remdups (filter P xs)" using \<open>filter P ys = []\<close> by simp
  finally show ?thesis by (simp only: length_remdups_leq)
qed

lemma length_filter_filter_le: "length (filter P (filter Q xs)) \<le> length (filter P xs)"
  by (induction xs) auto

termination reachable
proof (relation "measures
    [\<lambda>(tab, to_check, checked, used). card (fst ` set tab - set checked),
     \<lambda>(tab, to_check, checked, used). length (filter (\<lambda>x. x \<in> set checked) to_check)]",
    goal_cases)
  case 1
  then show ?case by simp
next
  case (2 tab s to_check checked used sy)
  show ?case
  proof (cases "s \<in> set checked")
    case True
    then have ins: "List.insert s checked = checked" by simp
    have "length (filter (\<lambda>x. x \<in> set checked)
                 (remdups (filter (\<lambda>c. c \<noteq> s) to_check
                           @ filter (\<lambda>c. c \<notin> set checked) (children sy))))
               \<le> length (filter (\<lambda>x. x \<in> set checked) (filter (\<lambda>c. c \<noteq> s) to_check))"
      by (rule filter_remdups_append_le) simp
    also have "\<dots> \<le> length (filter (\<lambda>x. x \<in> set checked) to_check)"
      by (rule length_filter_filter_le)
    finally show ?thesis using True ins by (simp add: less_Suc_eq_le)
  next
    case False
    have "s \<in> fst ` set tab" using 2 by (metis map_of_SomeD image_eqI fst_conv)
    then have "s \<in> fst ` set tab - set checked" using False by simp
    moreover have "fst ` set tab - set (List.insert s checked)
                 = (fst ` set tab - set checked) - {s}" by auto
    moreover have "finite (fst ` set tab - set checked)" by simp
    ultimately have "card (fst ` set tab - set (List.insert s checked))
                 < card (fst ` set tab - set checked)"
      by (metis card_Diff1_less)
    then show ?thesis by simp
  qed
qed

subsection \<open>Paths to termination\<close>

text \<open>
  \<^verbatim>\<open>all(grmr.symtab[c].can_terminate for c in names)\<close> and the same with
  \<^verbatim>\<open>any\<close>: both stop at the first name that decides them, and a name without an entry
  that they reach is a KeyError.
\<close>

fun all_terminate :: "(string \<times> symbol) list \<Rightarrow> string list \<Rightarrow> error + bool" where
  "all_terminate tab [] = Inr True"
| "all_terminate tab (c # cs) =
     (case map_of tab c of
        None \<Rightarrow> Inl KeyError
      | Some s \<Rightarrow> if can_terminate s = Some True then all_terminate tab cs else Inr False)"

fun any_terminate :: "(string \<times> symbol) list \<Rightarrow> string list \<Rightarrow> error + bool" where
  "any_terminate tab [] = Inr False"
| "any_terminate tab (c # cs) =
     (case map_of tab c of
        None \<Rightarrow> Inl KeyError
      | Some s \<Rightarrow> if can_terminate s = Some True then Inr True else any_terminate tab cs)"

text \<open>
  The loop of \<^verbatim>\<open>ChoiceSymbol.update_can_terminate\<close> over the alternatives from
  index \<open>i\<close> on.
\<close>

fun mark_choices ::
  "(string \<times> symbol) list \<Rightarrow> string list list \<Rightarrow> nat \<Rightarrow> bool option list
     \<Rightarrow> error + bool option list" where
  "mark_choices tab [] i ct = Inr ct"
| "mark_choices tab (alt # alts) i ct =
     (case all_terminate tab alt of
        Inl e \<Rightarrow> Inl e
      | Inr b \<Rightarrow>
          if b then (if i < length ct then mark_choices tab alts (Suc i) (ct[i := Some True])
                     else Inl IndexError)
          else mark_choices tab alts (Suc i) ct)"

text \<open>
  \<^verbatim>\<open>update_can_terminate\<close> of \<^verbatim>\<open>ChoiceSymbol\<close> and of \<^verbatim>\<open>_Symbol\<close>: the symbol
  as the call leaves it, and the value the call returns.
\<close>

definition update_can_terminate ::
  "(string \<times> symbol) list \<Rightarrow> symbol \<Rightarrow> error + (symbol \<times> bool)" where
  "update_can_terminate tab sy =
     (case kind sy of
        ChoiceSymbol wc ct \<Rightarrow>
          (case mark_choices tab (choice_values wc) 0 ct of
             Inl e \<Rightarrow> Inl e
           | Inr ct' \<Rightarrow>
               if Some True \<in> set ct'
               then Inr (sy\<lparr>can_terminate := Some True, kind := ChoiceSymbol wc ct'\<rparr>, True)
               else Inr (sy\<lparr>kind := ChoiceSymbol wc ct'\<rparr>, False))
      | _ \<Rightarrow>
          (case all_terminate tab (children sy) of
             Inl e \<Rightarrow> Inl e
           | Inr b \<Rightarrow> if b then Inr (sy\<lparr>can_terminate := Some True\<rparr>, True) else Inr (sy, False)))"

text \<open>
  One pass of the \<^verbatim>\<open>for\<close> loop inside \<^verbatim>\<open>while do_over\<close>, over the positions
  \<open>idxs\<close> of the table: a symbol whose \<^verbatim>\<open>can_terminate\<close> is \<^verbatim>\<open>None\<close> is updated
  where it stands, so that the symbols after it see the change.
\<close>

fun terminate_pass ::
  "nat list \<Rightarrow> (string \<times> symbol) list \<Rightarrow> bool \<Rightarrow> error + ((string \<times> symbol) list \<times> bool)" where
  "terminate_pass [] tab do_over = Inr (tab, do_over)"
| "terminate_pass (i # idxs) tab do_over =
     (if can_terminate (snd (tab ! i)) \<noteq> None then terminate_pass idxs tab do_over
      else
        (case update_can_terminate tab (snd (tab ! i)) of
           Inl e \<Rightarrow> Inl e
         | Inr (sy', changed) \<Rightarrow>
             terminate_pass idxs (tab[i := (fst (tab ! i), sy')]) (changed \<or> do_over)))"

text \<open>The number of symbols whose \<^verbatim>\<open>can_terminate\<close> is still \<^verbatim>\<open>None\<close>.\<close>

definition unknown :: "(string \<times> symbol) list \<Rightarrow> nat" where
  "unknown tab = length (filter (\<lambda>e. can_terminate (snd e) = None) tab)"

text \<open>A pass never makes a symbol unknown, and one that reports a change has marked a symbol.\<close>

lemma update_can_terminate_result:
  assumes "update_can_terminate tab sy = Inr (sy', changed)" and "can_terminate sy = None"
  shows "can_terminate sy' = (if changed then Some True else None)"
  using assms
  by (auto simp: update_can_terminate_def split: kind.splits sum.splits if_splits)

lemma unknown_update:
  assumes "i < length tab" and "can_terminate (snd (tab ! i)) = None"
  shows "unknown (tab[i := (k, sy')])
           = (if can_terminate sy' = None then unknown tab else unknown tab - 1)
         \<and> 0 < unknown tab"
  using assms
proof (induction tab arbitrary: i)
  case Nil
  then show ?case by simp
next
  case (Cons e tab)
  show ?case
  proof (cases i)
    case 0
    then show ?thesis using Cons.prems by (simp add: unknown_def)
  next
    case (Suc j)
    then have "unknown (tab[j := (k, sy')])
           = (if can_terminate sy' = None then unknown tab else unknown tab - 1)
         \<and> 0 < unknown tab"
      using Cons by simp
    then show ?thesis using Suc by (auto simp: unknown_def)
  qed
qed

lemma terminate_pass_unknown:
  assumes "terminate_pass idxs tab b = Inr (tab', b')" and "\<forall>i \<in> set idxs. i < length tab"
  shows "length tab' = length tab \<and> unknown tab' \<le> unknown tab
         \<and> (b' \<longrightarrow> b \<or> unknown tab' < unknown tab)"
  using assms
proof (induction idxs arbitrary: tab b)
  case Nil
  then show ?case by simp
next
  case (Cons i idxs)
  show ?case
  proof (cases "can_terminate (snd (tab ! i)) \<noteq> None")
    case True
    then have "terminate_pass idxs tab b = Inr (tab', b')" using Cons.prems(1) by simp
    then show ?thesis using Cons.IH Cons.prems(2) by simp
  next
    case False
    then have none: "can_terminate (snd (tab ! i)) = None" by simp
    obtain sy' changed where u: "update_can_terminate tab (snd (tab ! i)) = Inr (sy', changed)"
      and p: "terminate_pass idxs (tab[i := (fst (tab ! i), sy')]) (changed \<or> b) = Inr (tab', b')"
      using Cons.prems(1) none by (auto split: sum.splits)
    have i: "i < length tab" using Cons.prems(2) by simp
    have ct: "can_terminate sy' = (if changed then Some True else None)"
      using update_can_terminate_result [OF u none] .
    have un: "unknown (tab[i := (fst (tab ! i), sy')])
                = (if changed then unknown tab - 1 else unknown tab)" "0 < unknown tab"
      using unknown_update [OF i none, of "fst (tab ! i)" sy'] ct by auto
    have "\<forall>j \<in> set idxs. j < length (tab[i := (fst (tab ! i), sy')])"
      using Cons.prems(2) by simp
    from Cons.IH [OF p this]
    have r: "length tab' = length tab"
      "unknown tab' \<le> unknown (tab[i := (fst (tab ! i), sy')])"
      "b' \<longrightarrow> (changed \<or> b) \<or> unknown tab' < unknown (tab[i := (fst (tab ! i), sy')])"
      by simp_all
    show ?thesis using r un by (cases changed) auto
  qed
qed

text \<open>
  The \<^verbatim>\<open>while do_over\<close> loop: passes over the table until one changes nothing. A pass
  that changes something leaves fewer symbols unknown, which is why the loop ends.
\<close>

function build_paths :: "(string \<times> symbol) list \<Rightarrow> error + (string \<times> symbol) list" where
  "build_paths tab =
     (case terminate_pass [0 ..< length tab] tab False of
        Inl e \<Rightarrow> Inl e
      | Inr (tab', do_over) \<Rightarrow> if do_over then build_paths tab' else Inr tab')"
  by pat_completeness auto

termination
proof (relation "measure unknown", goal_cases)
  case 1
  then show ?case by simp
next
  case (2 tab x tab' do_over)
  then have "terminate_pass [0 ..< length tab] tab False = Inr (tab', True)" by simp
  from terminate_pass_unknown [OF this] show ?case by simp
qed

text \<open>
  The last loop: a symbol that cannot terminate and has no child that can is the
  IntegrityError.
\<close>

fun check_paths :: "symbol list \<Rightarrow> (string \<times> symbol) list \<Rightarrow> error + unit" where
  "check_paths [] tab = Inr ()"
| "check_paths (sy # rest) tab =
     (if can_terminate sy = Some True then check_paths rest tab
      else
        (case any_terminate tab (children sy) of
           Inl e \<Rightarrow> Inl e
         | Inr b \<Rightarrow>
             if b then check_paths rest tab
             else Inl (IntegrityError
                         (''Symbol has no paths to termination (infinite recursion?): '' @ name sy))))"

subsection \<open>The whole check\<close>

text \<open>
  \<^verbatim>\<open>sanity_check\<close> in the order of the code. A name with a dot or a bracket is not
  counted as unused. The messages that list names are given without the list.
\<close>

definition sanity_check ::
  "(string \<times> callable) list \<Rightarrow> (string \<times> symbol) list \<Rightarrow> error + (string \<times> symbol) list" where
  "sanity_check fs tab =
     (case check_symbols fs (map snd tab) [''rndflt'', ''rndint'', ''rndpow2''] of
        Inl e \<Rightarrow> Inl e
      | Inr funcs_used \<Rightarrow>
          if set (map fst fs) \<noteq> set funcs_used then Inl (IntegrityError ''Unused keyword argument'')
          else if ''root'' \<notin> set (map fst tab)
          then Inl (IntegrityError ''Missing required start symbol: root'')
          else
            (case reachable tab [''root''] [] [''root''] of
               Inl e \<Rightarrow> Inl e
             | Inr syms_used \<Rightarrow>
                 if \<exists>s \<in> set (map fst tab).
                      s \<notin> set syms_used \<and> CHR ''.'' \<notin> set s \<and> CHR ''['' \<notin> set s
                 then Inl (IntegrityError ''Unused symbol'')
                 else
                   (case build_paths tab of
                      Inl e \<Rightarrow> Inl e
                    | Inr tab' \<Rightarrow>
                        (case check_paths (map snd tab') tab' of
                           Inl e \<Rightarrow> Inl e
                         | Inr u \<Rightarrow> Inr tab'))))"

section \<open>\<^verbatim>\<open>Grammar.__init__\<close>\<close>

text \<open>
  The third built-in, \<^verbatim>\<open>rndflt\<close>, is
  \<^verbatim>\<open>lambda a, b: str(random.uniform(float(a), float(b)))\<close>. The decimal text that
  \<^verbatim>\<open>str\<close> gives for a float is not modelled: it is the parameter \<open>float_str\<close>.
\<close>

fun py_float :: "arg \<Rightarrow> error + num" where
  "py_float (Num (IntNum i)) = Inr (FloatNum (of_int i))"
| "py_float (Num x) = Inr x"
| "py_float (Val (Text s)) = (case float_of_str s of None \<Rightarrow> Inl ValueError | Some x \<Rightarrow> Inr x)"
| "py_float (Val (Bin s)) = (case float_of_str s of None \<Rightarrow> Inl ValueError | Some x \<Rightarrow> Inr x)"

text \<open>
  \<^verbatim>\<open>a + (b - a) * random()\<close> on floats: with an operand that is not finite the
  result is the infinity of \<open>b\<close> when \<open>a\<close> is finite and the draw is not zero, and
  not a number otherwise.
\<close>

definition float_uniform :: "num \<Rightarrow> num \<Rightarrow> rng \<Rightarrow> num \<times> rng" where
  "float_uniform a b r =
     (case random_random r of
        (f, r') \<Rightarrow>
          (case (a, b) of
             (FloatNum x, FloatNum y) \<Rightarrow> (FloatNum (x + (y - x) * f), r')
           | (FloatNum x, FloatInf neg) \<Rightarrow> (if f = 0 then FloatNaN else FloatInf neg, r')
           | _ \<Rightarrow> (FloatNaN, r')))"

definition rndflt :: "(num \<Rightarrow> string) \<Rightarrow> arg \<Rightarrow> arg \<Rightarrow> rng \<Rightarrow> error + (val \<times> rng)" where
  "rndflt float_str a b r =
     (case py_float a of
        Inl e \<Rightarrow> Inl e
      | Inr x \<Rightarrow>
          (case py_float b of
             Inl e \<Rightarrow> Inl e
           | Inr y \<Rightarrow>
               (case float_uniform x y r of (v, r') \<Rightarrow> Inr (Text (float_str v), r'))))"

fun rndflt_callable :: "(num \<Rightarrow> string) \<Rightarrow> callable" where
  "rndflt_callable float_str [a, b] r = rndflt float_str a b r"
| "rndflt_callable float_str args r = Inl TypeError"

text \<open>The keyword arguments and, for each built-in name they do not have, the built-in.\<close>

definition with_builtins :: "(num \<Rightarrow> string) \<Rightarrow> (string \<times> callable) list \<Rightarrow> (string \<times> callable) list" where
  "with_builtins float_str kwargs =
     kwargs
     @ (if ''rndint'' \<in> set (map fst kwargs) then [] else [(''rndint'', rndint_callable)])
     @ (if ''rndpow2'' \<in> set (map fst kwargs) then [] else [(''rndpow2'', rndpow2_callable)])
     @ (if ''rndflt'' \<in> set (map fst kwargs) then [] else [(''rndflt'', rndflt_callable float_str)])"

definition DEFAULT_LIMIT :: int where
  "DEFAULT_LIMIT = 100 * 1024"

text \<open>
  \<^verbatim>\<open>Grammar(grammar, limit, **kwargs)\<close> for a grammar given as a text:
  \<^verbatim>\<open>parse\<close>, \<^verbatim>\<open>normalize\<close> with the empty friendly prefix for the hash of the text,
  and \<^verbatim>\<open>sanity_check\<close>.
\<close>

definition Grammar_init ::
  "(num \<Rightarrow> string) \<Rightarrow> string \<Rightarrow> string \<Rightarrow> int option \<Rightarrow> (string \<times> callable) list
     \<Rightarrow> error + grammar" where
  "Grammar_init float_str grammar_hash text lmt kwargs =
     (if ''import'' \<in> set (map fst (with_builtins float_str kwargs))
      then Inl (IntegrityError '''import' is a reserved function name'')
      else
        (case Grammar_parse grammar_hash text of
           Inl e \<Rightarrow> Inl e
         | Inr (tab, trk) \<Rightarrow>
             (case normalize [(grammar_hash, [])] tab trk of
                Inl e \<Rightarrow> Inl e
              | Inr (tab1, trk1) \<Rightarrow>
                  (case sanity_check (with_builtins float_str kwargs) tab1 of
                     Inl e \<Rightarrow> Inl e
                   | Inr tab2 \<Rightarrow>
                       Inr \<lparr>limit = lmt, symtab = tab2, tracked = trk1,
                            funcs = with_builtins float_str kwargs\<rparr>))))"

section \<open>Notions used in the statements\<close>

text \<open>The result of a drawing operation without the random source it leaves.\<close>

definition result_of :: "error + ('a \<times> rng) \<Rightarrow> error + 'a" where
  "result_of x = map_sum id fst x"







text \<open>An output buffer all of whose values have the type of its first value.\<close>

definition homogeneous :: "val list \<Rightarrow> bool" where
  "homogeneous vs = list_all (\<lambda>v. same_type v (hd vs)) vs"

text \<open>A state whose buffer holds one \<^verbatim>\<open>bytes\<close> value.\<close>

definition bin_state :: gen_state where
  "bin_state = \<lparr>symstack = [], instances = [], gen_output = [Bin ''A''], gen_length = 1\<rparr>"

text \<open>
  A grammar whose limit 0 is exceeded from the start, and the symbol of
  \<^verbatim>\<open>root "x"{0,5}\<close> in it, which can terminate.
\<close>

definition exceeded_grammar :: grammar where
  "exceeded_grammar = \<lparr>limit = Some 0, symtab = [], tracked = [], funcs = []\<rparr>"

definition repeat_symbol :: symbol where
  "repeat_symbol =
     \<lparr>name = ''root'', line_no = 1, can_terminate = Some True,
      kind = RepeatSymbol (BInt 0) (BInt 5) [''[text (line 1 #0)]'']\<rparr>"

text \<open>
  The parser state at line 1 of a grammar whose hash is \<^verbatim>\<open>5f3a1c\<close>, before
  anything is defined, and the classes and attributes of the symbols a parse leaves in
  the table.
\<close>

definition line1_state :: parse_state where
  "line1_state =
     \<lparr>ps_prefix = ''5f3a1c'', ps_imports = [], ps_imports_used = [], ps_line_no = 1,
      ps_n_implicit = - 1, ps_name = None, ps_symtab = [], ps_tracked = []\<rparr>"

definition parsed_kinds ::
  "error + (string \<times> string \<times> parse_state) \<Rightarrow> error + (string \<times> kind) list" where
  "parsed_kinds x = map_sum id (\<lambda>(n, r, ps). map (\<lambda>(k, sy). (k, kind sy)) (ps_symtab ps)) x"

text \<open>
  A grammar made from a text with the default limit and no keyword arguments, under the
  hash \<^verbatim>\<open>5f3a1c\<close>; the names, termination flags and classes of its symbols; the
  result of \<^verbatim>\<open>generate()\<close> on it within the given fuel, where an error of the
  construction is the result; and the output buffer and the captured instances that the
  expansion loop leaves.
\<close>

definition new_grammar :: "(num \<Rightarrow> string) \<Rightarrow> string \<Rightarrow> error + grammar" where
  "new_grammar float_str text = Grammar_init float_str ''5f3a1c'' text (Some DEFAULT_LIMIT) []"

definition table_of :: "error + grammar \<Rightarrow> error + (string \<times> bool option \<times> kind) list" where
  "table_of x = map_sum id (\<lambda>g. map (\<lambda>(k, sy). (k, can_terminate sy, kind sy)) (symtab g)) x"

definition run :: "nat \<Rightarrow> error + grammar \<Rightarrow> rng \<Rightarrow> (error + val) option" where
  "run fuel x r =
     (case x of
        Inl e \<Rightarrow> Some (Inl e)
      | Inr g \<Rightarrow> map_option (map_sum id fst) (generate fuel g ''root'' r))"

definition final_state ::
  "nat \<Rightarrow> error + grammar \<Rightarrow> rng \<Rightarrow> (error + (val list \<times> (string \<times> val list) list)) option" where
  "final_state fuel x r =
     (case x of
        Inl e \<Rightarrow> Some (Inl e)
      | Inr g \<Rightarrow>
          map_option (map_sum id (\<lambda>(gs, r'). (gen_output gs, instances gs)))
            (generate_loop fuel g (initial_state g ''root'') [] r))"

definition newline :: string where
  "newline = [CHR 0x0A]"

chapter \<open>Verification\<close>

section \<open>The built-in \<^verbatim>\<open>rndint\<close>\<close>


lemma randint_range:
  assumes "lo \<le> hi"
  shows "\<exists>n r'. randint lo hi r = Inr (n, r') \<and> lo \<le> n \<and> n \<le> hi"
proof -
  have d: "0 < hi - lo + 1" using assms by simp
  have "0 \<le> r 0 mod (hi - lo + 1)" using d by (rule pos_mod_sign)
  moreover have "r 0 mod (hi - lo + 1) < hi - lo + 1" using d by (rule pos_mod_bound)
  ultimately show ?thesis using assms by (simp add: randint_def rng_next_def)
qed








section \<open>Weighted choice and sampling\<close>



















section \<open>The type of the output buffer\<close>

lemma homogeneous_append:
  assumes "homogeneous vs" and "vs = [] \<or> same_type v (hd vs)"
  shows "homogeneous (vs @ [v])"
  using assms by (cases vs) (auto simp: homogeneous_def same_type_def)

lemma GenState_append_ok:
  assumes "GenState_append gs v = Inr gs'"
  shows "gen_output gs' = gen_output gs @ [v] \<and> (gen_output gs = [] \<or> same_type v (hd (gen_output gs)))
         \<and> symstack gs' = symstack gs \<and> instances gs' = instances gs"
  using assms by (auto simp: GenState_append_def split: if_splits)

lemma GenState_append_homogeneous:
  assumes "GenState_append gs v = Inr gs'" and "homogeneous (gen_output gs)"
  shows "homogeneous (gen_output gs')"
  using GenState_append_ok [OF assms(1)] assms(2) homogeneous_append by metis

lemma push_output [simp]: "gen_output (push ns gs) = gen_output gs"
  by (simp add: push_def)

lemma plain_generate_homogeneous:
  assumes "plain_generate g sy gs r = Inr (gs', r')" and "homogeneous (gen_output gs)"
  shows "homogeneous (gen_output gs')"
  using assms
  by (auto simp: plain_generate_def TextSymbol_generate_def BinSymbol_generate_def
        TextChoiceSymbol_generate_def ChoiceSymbol_generate_def ConcatSymbol_generate_def
        RepeatSymbol_generate_def RepeatSampleSymbol_generate_def
      split: kind.splits sum.splits prod.splits option.splits bound.splits if_splits
      dest: GenState_append_homogeneous)

lemma call_func_homogeneous:
  assumes "call_func g f args gs r = Inr (gs', r')" and "homogeneous (gen_output gs)"
  shows "homogeneous (gen_output gs')"
  using assms
  by (auto simp: call_func_def split: sum.splits prod.splits option.splits
      dest: GenState_append_homogeneous)

lemma replay_homogeneous:
  assumes "replay insts gs r = Inr (gs', r')" and "homogeneous (gen_output gs)"
  shows "homogeneous (gen_output gs')"
  using assms
  by (auto simp: replay_def split: sum.splits prod.splits option.splits
      dest: GenState_append_homogeneous)

lemma untrack_output:
  assumes "untrack s gs tracking = Inr (gs', tracking')"
  shows "gen_output gs' = gen_output gs"
  using assms
  by (auto simp: untrack_def split: list.splits sum.splits prod.splits option.splits if_splits)

lemma enter_output [simp]: "gen_output (fst (enter g s gs tracking)) = gen_output gs"
  by (simp add: enter_def)

lemma run_homogeneous:
  "(\<forall>gs tracking r gs' r'. generate_loop n g gs tracking r = Some (Inr (gs', r'))
        \<longrightarrow> homogeneous (gen_output gs) \<longrightarrow> homogeneous (gen_output gs'))
   \<and> (\<forall>sy gs r gs' r'. symbol_generate n g sy gs r = Some (Inr (gs', r'))
        \<longrightarrow> homogeneous (gen_output gs) \<longrightarrow> homogeneous (gen_output gs'))"
proof (induction n)
  case 0
  then show ?case by simp
next
  case (Suc n)
  have loop: "homogeneous (gen_output gs')"
    if run: "generate_loop (Suc n) g gs tracking r = Some (Inr (gs', r'))"
      and h: "homogeneous (gen_output gs)" for gs tracking r gs' r'
  proof (cases "symstack gs")
    case Nil
    then show ?thesis using run h by simp
  next
    case (Cons item rest)
    show ?thesis
    proof (cases item)
      case (Unwind s)
      then have "generate_loop n g (gs\<lparr>symstack := rest\<rparr>) tracking r = Some (Inr (gs', r'))"
        using run Cons by simp
      moreover have "homogeneous (gen_output (gs\<lparr>symstack := rest\<rparr>))" using h by simp
      ultimately show ?thesis using Suc by blast
    next
      case (Untrack s)
      then obtain gs1 tr1 where u: "untrack s (gs\<lparr>symstack := rest\<rparr>) tracking = Inr (gs1, tr1)"
        and l: "generate_loop n g gs1 tr1 r = Some (Inr (gs', r'))"
        using run Cons by (auto split: sum.splits)
      have "gen_output gs1 = gen_output gs" using untrack_output [OF u] by simp
      then show ?thesis using Suc l h by metis
    next
      case (Sym s)
      then obtain sy gs1 r1 where
        sg: "symbol_generate n g sy (fst (enter g s (gs\<lparr>symstack := rest\<rparr>) tracking)) r = Some (Inr (gs1, r1))"
        and l: "generate_loop n g gs1 (snd (enter g s (gs\<lparr>symstack := rest\<rparr>) tracking)) r1 = Some (Inr (gs', r'))"
        using run Cons by (auto split: option.splits sum.splits)
      have "homogeneous (gen_output (fst (enter g s (gs\<lparr>symstack := rest\<rparr>) tracking)))"
        using h by simp
      then have "homogeneous (gen_output gs1)" using Suc sg by blast
      then show ?thesis using Suc l by blast
    qed
  qed
  have symb: "homogeneous (gen_output gs')"
    if run: "symbol_generate (Suc n) g sy gs r = Some (Inr (gs', r'))"
      and h: "homogeneous (gen_output gs)" for sy gs r gs' r'
  proof (cases "kind sy")
    case (FuncSymbol fname fargs)
    then obtain args insts r1 where
      "call_func g fname args (gs\<lparr>instances := insts\<rparr>) r1 = Inr (gs', r')"
      using run by (auto split: option.splits sum.splits)
    then show ?thesis using h call_func_homogeneous [of g fname args "gs\<lparr>instances := insts\<rparr>" r1 gs' r']
      by simp
  next
    case (RefSymbol ref)
    show ?thesis
    proof (cases "map_of (instances gs) ref")
      case None
      then show ?thesis using run RefSymbol by simp
    next
      case (Some insts)
      show ?thesis
      proof (cases insts)
        case Nil
        then obtain target where "symbol_generate n g target gs r = Some (Inr (gs', r'))"
          using run RefSymbol Some by (auto split: option.splits)
        then show ?thesis using Suc h by blast
      next
        case (Cons i rest)
        then have "replay (i # rest) gs r = Inr (gs', r')" using run RefSymbol Some by simp
        then show ?thesis using h by (rule replay_homogeneous)
      qed
    qed
  qed (use run h in \<open>auto dest: plain_generate_homogeneous\<close>)
  show ?case using loop symb by blast
qed


text \<open>
  Claim C7. \<^verbatim>\<open>_GenState.append\<close> compares the type of the value with the type of
  the first value of the buffer: on a non-empty buffer a value of the other type raises
  a GenerationError, and otherwise the value is appended. So a Text value after a Bin
  value, or a Bin value after a Text value, raises a GenerationError, and every run of
  the expansion loop that ends without an error leaves a buffer of one type.
\<close>

theorem append_checks_type:
  assumes "homogeneous (gen_output gs)"
  shows "(gen_output gs \<noteq> [] \<and> \<not> same_type v (hd (gen_output gs))
            \<longrightarrow> (\<exists>m. GenState_append gs v = Inl (GenerationError m)))
       \<and> (gen_output gs = [] \<or> same_type v (hd (gen_output gs))
            \<longrightarrow> (\<exists>gs'. GenState_append gs v = Inr gs' \<and> gen_output gs' = gen_output gs @ [v]
                   \<and> homogeneous (gen_output gs')))
       \<and> (Bin b \<in> set (gen_output gs) \<longrightarrow> (\<exists>m. GenState_append gs (Text t) = Inl (GenerationError m)))
       \<and> (Text t \<in> set (gen_output gs) \<longrightarrow> (\<exists>m. GenState_append gs (Bin b) = Inl (GenerationError m)))
       \<and> (\<forall>n g tracking r gs' r'. generate_loop n g gs tracking r = Some (Inr (gs', r'))
            \<longrightarrow> homogeneous (gen_output gs'))"
proof -
  have mismatch: "\<exists>m. GenState_append gs v = Inl (GenerationError m)"
    if "gen_output gs \<noteq> []" "\<not> same_type v (hd (gen_output gs))" for v
    using that by (simp add: GenState_append_def)
  have ok: "\<exists>gs'. GenState_append gs v = Inr gs' \<and> gen_output gs' = gen_output gs @ [v]
              \<and> homogeneous (gen_output gs')"
    if "gen_output gs = [] \<or> same_type v (hd (gen_output gs))"
    using that assms homogeneous_append [of "gen_output gs" v]
    by (auto simp: GenState_append_def)
  have first: "same_type w (hd (gen_output gs))" if "w \<in> set (gen_output gs)" for w
    using that assms by (simp add: homogeneous_def list_all_iff)
  have bin: "\<exists>m. GenState_append gs (Text t) = Inl (GenerationError m)"
    if "Bin b \<in> set (gen_output gs)"
  proof -
    have "\<not> same_type (Text t) (hd (gen_output gs))"
      using first [OF that] by (simp add: same_type_def)
    moreover have "gen_output gs \<noteq> []" using that by auto
    ultimately show ?thesis by (rule mismatch [rotated])
  qed
  have text_case: "\<exists>m. GenState_append gs (Bin b) = Inl (GenerationError m)"
    if "Text t \<in> set (gen_output gs)"
  proof -
    have "\<not> same_type (Bin b) (hd (gen_output gs))"
      using first [OF that] by (simp add: same_type_def)
    moreover have "gen_output gs \<noteq> []" using that by auto
    ultimately show ?thesis by (rule mismatch [rotated])
  qed
  have run: "homogeneous (gen_output gs')"
    if "generate_loop n g gs tracking r = Some (Inr (gs', r'))" for n g tracking r gs' r'
    using that assms run_homogeneous [of n g] by blast
  show ?thesis using mismatch ok bin text_case run by blast
qed

theorem append_checks_type_witness:
  "homogeneous (gen_output bin_state)
   \<and> (\<exists>m. GenState_append bin_state (Text ''a'') = Inl (GenerationError m))
   \<and> (\<exists>gs'. GenState_append bin_state (Bin ''B'') = Inr gs'
          \<and> gen_output gs' = [Bin ''A'', Bin ''B''])
   \<and> (\<exists>gs'. GenState_append GenState_init (Text ''a'') = Inr gs' \<and> gen_output gs' = [Text ''a''])"
proof -
  have h: "homogeneous (gen_output bin_state)"
    by (simp add: homogeneous_def bin_state_def same_type_def)
  have h0: "homogeneous (gen_output GenState_init)"
    by (simp add: homogeneous_def GenState_init_def)
  have m: "Bin ''A'' \<in> set (gen_output bin_state)" by (simp add: bin_state_def)
  have s: "same_type (Bin ''B'') (hd (gen_output bin_state))"
    by (simp add: bin_state_def same_type_def)
  have e: "gen_output GenState_init = []" by (simp add: GenState_init_def)
  have o: "gen_output bin_state = [Bin ''A'']" by (simp add: bin_state_def)
  show ?thesis
    using append_checks_type [OF h, of "Bin ''B''" "''A''" "''a''"]
      append_checks_type [OF h0, of "Text ''a''"] h m s e o
    by auto
qed

section \<open>The repetition count\<close>

lemma draw_reps_range:
  assumes "lo \<le> hi"
  shows "\<exists>k n r1 r2. randint (int lo) (int hi) r = Inr (int k, r1)
           \<and> randint (int lo) (int k) r1 = Inr (int n, r2)
           \<and> draw_reps (BInt lo) (BInt hi) r = Inr (n, r2)
           \<and> lo \<le> n \<and> n \<le> k \<and> k \<le> hi"
proof -
  obtain k r1 where k: "randint (int lo) (int hi) r = Inr (k, r1)" "int lo \<le> k" "k \<le> int hi"
    using randint_range [of "int lo" "int hi" r] assms by auto
  obtain n r2 where n: "randint (int lo) k r1 = Inr (n, r2)" "int lo \<le> n" "n \<le> k"
    using randint_range [OF k(2), of r1] by auto
  have k0: "int (nat k) = k" and n0: "int (nat n) = n" using k n by simp_all
  have "draw_reps (BInt lo) (BInt hi) r = Inr (nat n, r2)"
    using k n k0 by (simp add: draw_reps_def randint_bound_def)
  moreover have "randint (int lo) (int hi) r = Inr (int (nat k), r1)" using k k0 by simp
  moreover have "randint (int lo) (int (nat k)) r1 = Inr (int (nat n), r2)" using n k0 n0 by simp
  moreover have "lo \<le> nat n" "nat n \<le> nat k" "nat k \<le> hi" using k n by linarith+
  ultimately show ?thesis by blast
qed

text \<open>
  Claim C3, as amended. In \<^verbatim>\<open>RepeatSymbol.generate\<close> and
  \<^verbatim>\<open>RepeatSampleSymbol.generate\<close>: when the limit is exceeded and the symbol cannot
  terminate, nothing is pushed or emitted and nothing is drawn; when the limit is
  exceeded and the symbol can terminate, the count is \<^verbatim>\<open>min_\<close> and nothing is drawn;
  when the limit is not exceeded, the count is
  \<^verbatim>\<open>randint(min_, randint(min_, max_))\<close>, an integer \<open>n\<close> with
  \<open>min \<le> n \<le> k \<le> max\<close> for the inner draw \<open>k\<close>. A Repeat pushes as many copies of its
  children as the count says; a RepeatSample samples as many alternatives.
\<close>

theorem repeat_count:
  "(is_limit_exceeded g (gen_length gs) \<and> can_terminate sy \<noteq> Some True
      \<longrightarrow> RepeatSymbol_generate g sy mn mx cs gs r = Inr (gs, r)
        \<and> RepeatSampleSymbol_generate g sy mn mx cs idx gs r = Inr (gs, r))
   \<and> (is_limit_exceeded g (gen_length gs) \<and> can_terminate sy = Some True
      \<longrightarrow> repeat_reps g sy mn mx gs r = Inr (Some mn, r)
        \<and> RepeatSymbol_generate g sy (BInt lo) mx cs gs r
            = Inr (push (concat (replicate lo cs)) gs, r))
   \<and> (\<not> is_limit_exceeded g (gen_length gs) \<and> lo \<le> hi
      \<longrightarrow> (\<exists>k n r1 r2. randint (int lo) (int hi) r = Inr (int k, r1)
             \<and> randint (int lo) (int k) r1 = Inr (int n, r2)
             \<and> lo \<le> n \<and> n \<le> k \<and> k \<le> hi
             \<and> repeat_reps g sy (BInt lo) (BInt hi) gs r = Inr (Some (BInt n), r2)
             \<and> RepeatSymbol_generate g sy (BInt lo) (BInt hi) cs gs r
                 = Inr (push (concat (replicate n cs)) gs, r2)))"
proof -
  have a: "RepeatSymbol_generate g sy mn mx cs gs r = Inr (gs, r)
        \<and> RepeatSampleSymbol_generate g sy mn mx cs idx gs r = Inr (gs, r)"
    if "is_limit_exceeded g (gen_length gs)" "can_terminate sy \<noteq> Some True"
    using that
    by (simp add: RepeatSymbol_generate_def RepeatSampleSymbol_generate_def repeat_reps_def)
  have b: "repeat_reps g sy mn mx gs r = Inr (Some mn, r)
        \<and> RepeatSymbol_generate g sy (BInt lo) mx cs gs r
            = Inr (push (concat (replicate lo cs)) gs, r)"
    if "is_limit_exceeded g (gen_length gs)" "can_terminate sy = Some True"
    using that by (simp add: RepeatSymbol_generate_def repeat_reps_def)
  have c: "\<exists>k n r1 r2. randint (int lo) (int hi) r = Inr (int k, r1)
             \<and> randint (int lo) (int k) r1 = Inr (int n, r2)
             \<and> lo \<le> n \<and> n \<le> k \<and> k \<le> hi
             \<and> repeat_reps g sy (BInt lo) (BInt hi) gs r = Inr (Some (BInt n), r2)
             \<and> RepeatSymbol_generate g sy (BInt lo) (BInt hi) cs gs r
                 = Inr (push (concat (replicate n cs)) gs, r2)"
    if nl: "\<not> is_limit_exceeded g (gen_length gs)" and le: "lo \<le> hi"
  proof -
    obtain k n r1 r2 where d: "randint (int lo) (int hi) r = Inr (int k, r1)"
      "randint (int lo) (int k) r1 = Inr (int n, r2)"
      "draw_reps (BInt lo) (BInt hi) r = Inr (n, r2)" "lo \<le> n" "n \<le> k" "k \<le> hi"
      using draw_reps_range [OF le, of r] by blast
    have "repeat_reps g sy (BInt lo) (BInt hi) gs r = Inr (Some (BInt n), r2)"
      using nl d(3) by (simp add: repeat_reps_def)
    then show ?thesis using d by (auto simp: RepeatSymbol_generate_def)
  qed
  show ?thesis using a b c by blast
qed

text \<open>
  Claim C3 as stated fails where the limit is exceeded and the symbol can terminate:
  \<^verbatim>\<open>root "x"{0,5}\<close> under the limit 0 pushes no copy and leaves the random source
  untouched, where the draws \<^verbatim>\<open>randint(0, randint(0, 5))\<close> from this source give 1.
\<close>

theorem repeat_count_counterexample:
  "is_limit_exceeded exceeded_grammar (gen_length GenState_init)
   \<and> can_terminate repeat_symbol = Some True
   \<and> RepeatSymbol_generate exceeded_grammar repeat_symbol (BInt 0) (BInt 5)
        [''[text (line 1 #0)]''] GenState_init (rng_of [3, 1])
      = Inr (GenState_init, rng_of [3, 1])
   \<and> result_of (draw_reps (BInt 0) (BInt 5) (rng_of [3, 1])) = Inr 1"
proof -
  have "result_of (draw_reps (BInt 0) (BInt 5) (rng_of [3, 1])) = Inr 1"
    by (simp add: result_of_def draw_reps_def randint_bound_def randint_def rng_next_def rng_of_def)
  moreover have "is_limit_exceeded exceeded_grammar (gen_length GenState_init)"
    by (simp add: is_limit_exceeded_def exceeded_grammar_def GenState_init_def)
  moreover have "can_terminate repeat_symbol = Some True" by (simp add: repeat_symbol_def)
  ultimately show ?thesis
    by (simp add: RepeatSymbol_generate_def repeat_reps_def push_def GenState_init_def)
qed

theorem repeat_count_witness:
  "is_limit_exceeded exceeded_grammar (gen_length GenState_init)
   \<and> can_terminate repeat_symbol = Some True
   \<and> repeat_reps exceeded_grammar repeat_symbol (BInt 0) (BInt 5) GenState_init (rng_of [3, 1])
       = Inr (Some (BInt 0), rng_of [3, 1])
   \<and> \<not> is_limit_exceeded (exceeded_grammar\<lparr>limit := None\<rparr>) (gen_length GenState_init)
   \<and> (\<exists>k n r1 r2. n \<le> k \<and> k \<le> 5
        \<and> repeat_reps (exceeded_grammar\<lparr>limit := None\<rparr>) repeat_symbol (BInt 0) (BInt 5)
             GenState_init (rng_of [3, 1]) = Inr (Some (BInt n), r2))
   \<and> RepeatSymbol_generate exceeded_grammar (repeat_symbol\<lparr>can_terminate := None\<rparr>) (BInt 0) (BInt 5)
        [''[text (line 1 #0)]''] GenState_init (rng_of [3, 1]) = Inr (GenState_init, rng_of [3, 1])"
proof -
  have e: "is_limit_exceeded exceeded_grammar (gen_length GenState_init)"
    by (simp add: is_limit_exceeded_def exceeded_grammar_def GenState_init_def)
  have t: "can_terminate repeat_symbol = Some True" by (simp add: repeat_symbol_def)
  have n: "\<not> is_limit_exceeded (exceeded_grammar\<lparr>limit := None\<rparr>) (gen_length GenState_init)"
    by (simp add: is_limit_exceeded_def)
  have u: "can_terminate (repeat_symbol\<lparr>can_terminate := None\<rparr>) \<noteq> Some True" by simp
  have l: "(0::nat) \<le> 5" by simp
  show ?thesis
    using repeat_count [of exceeded_grammar GenState_init repeat_symbol "BInt 0" "BInt 5"
        "[''[text (line 1 #0)]'']" "rng_of [3, 1]" None 0 5]
      repeat_count [of "exceeded_grammar\<lparr>limit := None\<rparr>" GenState_init repeat_symbol "BInt 0" "BInt 5"
        "[''[text (line 1 #0)]'']" "rng_of [3, 1]" None 0 5]
      repeat_count [of exceeded_grammar GenState_init "repeat_symbol\<lparr>can_terminate := None\<rparr>"
        "BInt 0" "BInt 5" "[''[text (line 1 #0)]'']" "rng_of [3, 1]" None 0 5]
      e t n u l
    by (auto simp del: One_nat_def)
qed


section \<open>The regex sub-parser\<close>

lemma RE_SET_dash: "re_match_start RE_SET (CHR ''-'' # rest) = Some (rest, [])"
  by (simp add: re_match_start_def RE_SET_def Lit_def Opt_def in_class_def)

lemma RE_SET_bracket: "re_match_start RE_SET (CHR '']'' # rest) = Some (rest, [])"
  by (simp add: re_match_start_def RE_SET_def Lit_def Opt_def in_class_def)

text \<open>
  In the loop over a character set, a dash that comes first raises the ParseError
  whatever follows it, and a dash right before the closing bracket of a set that is not
  empty is the character \<^verbatim>\<open>-\<close>.
\<close>

lemma regex_set_dash:
  "regex_set (CHR ''-'' # rest) [] False
     = Inl (ParseError (''Parse error in regex at: '' @ CHR ''-'' # rest))
   \<and> (\<forall>alpha. alpha \<noteq> [] \<longrightarrow>
         regex_set (CHR ''-'' # CHR '']'' # rest) alpha False = Inr (alpha @ ''-'', rest))"
proof -
  have a: "regex_set (CHR ''-'' # rest) [] False
     = Inl (ParseError (''Parse error in regex at: '' @ CHR ''-'' # rest))"
    by (subst regex_set.simps) (simp add: RE_SET_dash)
  have b: "regex_set (CHR ''-'' # CHR '']'' # rest) alpha False = Inr (alpha @ ''-'', rest)"
    if "alpha \<noteq> []" for alpha
  proof -
    have "regex_set (CHR ''-'' # CHR '']'' # rest) alpha False
            = regex_set (CHR '']'' # rest) alpha True"
      using that by (subst regex_set.simps) (simp add: RE_SET_dash)
    also have "\<dots> = Inr (alpha @ ''-'', rest)"
      by (subst regex_set.simps) (simp add: RE_SET_bracket)
    finally show ?thesis .
  qed
  show ?thesis using a b by blast
qed

text \<open>
  Claim C6 fails on the code for the leading dash: parsing \<^verbatim>\<open>/[-a]/\<close> raises a
  ParseError, where the docstring of \<^verbatim>\<open>RegexSymbol\<close> says that the dash can be matched
  by putting it first or last in the set. The trailing dash of \<^verbatim>\<open>/[a-]/\<close> is the
  literal character.
\<close>

theorem regex_leading_dash_raises:
  "parsed_kinds (RegexSymbol_parse ''/[-a]/'' line1_state)
     = Inl (ParseError ''Parse error in regex at: -a]/'')
   \<and> parsed_kinds (RegexSymbol_parse ''/[a-]/'' line1_state)
     = Inr [(''5f3a1c.[regex (line 1 #0)]'', RegexSymbol [''5f3a1c.[regex (line 1 #0).0]'']),
            (''5f3a1c.[regex (line 1 #0).0]'', TextChoiceSymbol ''a-'')]"
  by code_simp

text \<open>
  \<^verbatim>\<open>_RE_PARSE\<close> matches neither \<^verbatim>\<open>*\<close> nor \<^verbatim>\<open>+\<close>, whatever follows.
\<close>

lemma RE_PARSE_star_plus:
  "re_match_start RE_PARSE (CHR ''*'' # rest) = None
   \<and> re_match_start RE_PARSE (CHR ''+'' # rest) = None"
  by (simp add: re_match_start_def RE_PARSE_def Lit_def Opt_def Plus_re_def in_class_def)

text \<open>
  Claim C2 fails on the code: in \<^verbatim>\<open>/a*/\<close> and \<^verbatim>\<open>/a+/\<close> the quantifier is parsed as
  a text symbol of its own after the text symbol \<^verbatim>\<open>a\<close>, and no Repeat is made, where
  \<^verbatim>\<open>/a{0,5}/\<close> wraps the atom in a Repeat with the bounds (0, 5). The docstring of
  \<^verbatim>\<open>RegexSymbol\<close> says that \<^verbatim>\<open>*\<close> is equivalent to \<^verbatim>\<open>{0,5}\<close> and \<^verbatim>\<open>+\<close> to
  \<^verbatim>\<open>{1,5}\<close>.
\<close>

theorem regex_star_plus_are_literals:
  "parsed_kinds (RegexSymbol_parse ''/a*/'' line1_state)
     = Inr [(''5f3a1c.[regex (line 1 #0)]'',
               RegexSymbol [''5f3a1c.[regex (line 1 #0).0]'', ''5f3a1c.[regex (line 1 #0).1]'']),
            (''5f3a1c.[regex (line 1 #0).0]'', TextSymbol ''a''),
            (''5f3a1c.[regex (line 1 #0).1]'', TextSymbol ''*'')]
   \<and> parsed_kinds (RegexSymbol_parse ''/a+/'' line1_state)
     = Inr [(''5f3a1c.[regex (line 1 #0)]'',
               RegexSymbol [''5f3a1c.[regex (line 1 #0).0]'', ''5f3a1c.[regex (line 1 #0).1]'']),
            (''5f3a1c.[regex (line 1 #0).0]'', TextSymbol ''a''),
            (''5f3a1c.[regex (line 1 #0).1]'', TextSymbol ''+'')]
   \<and> parsed_kinds (RegexSymbol_parse ''/a{0,5}/'' line1_state)
     = Inr [(''5f3a1c.[regex (line 1 #0)]'', RegexSymbol [''5f3a1c.[regex (line 1 #0).1]'']),
            (''5f3a1c.[regex (line 1 #0).0]'', TextSymbol ''a''),
            (''5f3a1c.[regex (line 1 #0).1]'',
               RepeatSymbol (BInt 0) (BInt 5) [''5f3a1c.[regex (line 1 #0).0]''])]"
  by code_simp

section \<open>A repeat bound written as a star\<close>

text \<open>
  Claim C10. The grammar \<^verbatim>\<open>root "x"{*}\<close> is constructed without an error: the
  pattern \<^verbatim>\<open>_RE_DEFN\<close> matches \<^verbatim>\<open>{*}\<close> as a repeat whose group \<^verbatim>\<open>a\<close> is the star,
  and the Repeat symbol that \<^verbatim>\<open>root\<close> becomes holds the star as both of its bounds.
  \<^verbatim>\<open>generate\<close> then fails in \<^verbatim>\<open>random.randint\<close> with a TypeError, whatever the
  random source, and a TypeError is none of ParseError, IntegrityError and
  GenerationError.
\<close>

theorem star_bound_type_error:
  "re_match_start RE_DEFN ''{*}'' = Some ([], [(''a'', ''*''), (''repeat'', ''{*}'')])
   \<and> table_of (new_grammar float_str ''root \"x\"{*}'')
     = Inr [(''root'', Some True, RepeatSymbol BStar BStar [''[text (line 1 #0)]'']),
            (''[text (line 1 #0)]'', Some True, TextSymbol ''x'')]
   \<and> run 10 (new_grammar float_str ''root \"x\"{*}'') r = Some (Inl TypeError)
   \<and> \<not> is_grammar_exception TypeError"
  by code_simp

section \<open>A reference without an instance\<close>

lemma GenState_append_instances:
  assumes "GenState_append gs v = Inr gs'"
  shows "instances gs' = instances gs"
  using assms by (auto simp: GenState_append_def split: if_splits)

lemma push_instances [simp]: "instances (push ns gs) = instances gs"
  by (simp add: push_def)

lemma plain_generate_instances:
  assumes "plain_generate g sy gs r = Inr (gs', r')"
  shows "instances gs' = instances gs"
  using assms
  by (auto simp: plain_generate_def TextSymbol_generate_def BinSymbol_generate_def
        TextChoiceSymbol_generate_def ChoiceSymbol_generate_def ConcatSymbol_generate_def
        RepeatSymbol_generate_def RepeatSampleSymbol_generate_def
      split: kind.splits sum.splits prod.splits option.splits bound.splits if_splits
      dest: GenState_append_instances)

text \<open>
  \<^verbatim>\<open>RefSymbol.generate\<close> on a target without instances is the \<^verbatim>\<open>generate\<close> method of
  the target, called on the same state: when the target is neither a function nor a
  reference, the call leaves the list of instances of the target empty.
\<close>

lemma ref_fallback_instances:
  assumes "kind sy = RefSymbol ref" and "map_of (instances gs) ref = Some []"
    and "map_of (symtab g) ref = Some target"
    and "\<forall>f a. kind target \<noteq> FuncSymbol f a" and "\<forall>x. kind target \<noteq> RefSymbol x"
  shows "symbol_generate (Suc (Suc n)) g sy gs r = Some (plain_generate g target gs r)"
    and "plain_generate g target gs r = Inr (gs', r') \<Longrightarrow> map_of (instances gs') ref = Some []"
proof -
  show "symbol_generate (Suc (Suc n)) g sy gs r = Some (plain_generate g target gs r)"
    using assms by (cases "kind target") simp_all
  show "map_of (instances gs') ref = Some []" if "plain_generate g target gs r = Inr (gs', r')"
    using plain_generate_instances [OF that] assms(2) by simp
qed

text \<open>
  Claim C1 fails on the code. In the grammar

  \<^verbatim>\<open>root @A @A\<close>, \<^verbatim>\<open>A 1 "a"\<close>, \<^verbatim>\<open> 1 "b"\<close>

  the first reference finds no instance of \<^verbatim>\<open>A\<close> and generates one, \<^verbatim>\<open>a\<close> under
  the random words 0 and \<open>2\<^sup>5\<^sup>2\<close>. The value is not captured: at the end of the run the
  instances of \<^verbatim>\<open>A\<close> are still empty, and the second reference has generated a value
  of its own, \<^verbatim>\<open>b\<close>, so that the output is \<^verbatim>\<open>ab\<close>. Where \<^verbatim>\<open>A\<close> itself is expanded
  from the stack, as in \<^verbatim>\<open>root A @A\<close>, its value is captured and the reference
  replays it.
\<close>

theorem ref_fallback_not_captured:
  "table_of (new_grammar float_str
       (''root @A @A'' @ newline @ ''A 1 \"a\"'' @ newline @ '' 1 \"b\"''))
     = Inr [(''root'', Some True, ConcatSymbol [''@A'', ''@A'']),
            (''@A'', Some True, RefSymbol ''A''),
            (''A'', Some True,
               ChoiceSymbol
                 \<lparr>total = 2,
                  choice_values = [[''[text (line 2 #0)]''], [''[text (line 3 #0)]'']],
                  weights = [Weight 1, Weight 1]\<rparr>
                 [Some True, Some True]),
            (''[text (line 2 #0)]'', Some True, TextSymbol ''a''),
            (''[text (line 3 #0)]'', Some True, TextSymbol ''b'')]
   \<and> final_state 30
        (new_grammar float_str (''root @A @A'' @ newline @ ''A 1 \"a\"'' @ newline @ '' 1 \"b\"''))
        (rng_of [0, 4503599627370496])
     = Some (Inr ([Text ''a'', Text ''b''], [(''A'', [])]))
   \<and> run 30
        (new_grammar float_str (''root @A @A'' @ newline @ ''A 1 \"a\"'' @ newline @ '' 1 \"b\"''))
        (rng_of [0, 4503599627370496])
     = Some (Inr (Text ''ab''))
   \<and> final_state 30
        (new_grammar float_str (''root A @A'' @ newline @ ''A 1 \"a\"'' @ newline @ '' 1 \"b\"''))
        (rng_of [4503599627370496, 0])
     = Some (Inr ([Text ''b'', Text ''b''], [(''A'', [Text ''b''])]))"
  by code_simp

end
